theory Spec2Isabelle
  imports Main
begin

section \<open>Python values and exceptions\<close>

text \<open>
  The values that reach \<^verbatim>\<open>MFScalar\<close>: \<^verbatim>\<open>None\<close>, booleans, unbounded integers,
  strings, and the three wrapper kinds that \<^verbatim>\<open>set_data\<close> tests with
  \<^verbatim>\<open>isinstance\<close> (\<^verbatim>\<open>list\<close>, \<^verbatim>\<open>tuple\<close>, \<^verbatim>\<open>np.ndarray\<close>). A dictionary
  maps stress periods to values; it is what the transient \<^verbatim>\<open>set_data\<close> iterates.
  A value of this datatype has finite nesting depth: a Python list that contains itself
  has no counterpart here. An array is a sequence of its elements along the first axis
  (zero-dimensional arrays and floating-point numbers are outside the model).
\<close>

datatype pyval =
    PNone
  | PBool bool
  | PInt int
  | PStr string
  | PList "pyval list"
  | PTuple "pyval list"
  | PArray "pyval list"
  | PDict "(int \<times> pyval) list"

datatype py_version = Py2 | Py3

datatype error =
    IndexError
  | TypeError string
  | AttributeError string
  | AssertionError
  | ConversionError string
  | MFFileParseException string

text \<open>\<^verbatim>\<open>isinstance(data, list) or isinstance(data, np.ndarray) or isinstance(data, tuple)\<close>\<close>

fun is_wrapper :: "pyval \<Rightarrow> bool" where
  "is_wrapper (PList xs) = True"
| "is_wrapper (PArray xs) = True"
| "is_wrapper (PTuple xs) = True"
| "is_wrapper v = False"

text \<open>\<^verbatim>\<open>isinstance(data, list) or isinstance(data, tuple)\<close>\<close>

fun is_list_or_tuple :: "pyval \<Rightarrow> bool" where
  "is_list_or_tuple (PList xs) = True"
| "is_list_or_tuple (PTuple xs) = True"
| "is_list_or_tuple v = False"

text \<open>The elements of a wrapper, in order; only ever applied to a wrapper.\<close>

fun items :: "pyval \<Rightarrow> pyval list" where
  "items (PList xs) = xs"
| "items (PTuple xs) = xs"
| "items (PArray xs) = xs"
| "items v = []"

text \<open>\<^verbatim>\<open>data[0]\<close> on a wrapper: an empty one raises \<^verbatim>\<open>IndexError\<close>.\<close>

definition getitem0 :: "pyval \<Rightarrow> error + pyval" where
  "getitem0 d = (case items d of [] \<Rightarrow> Inl IndexError | x # xs \<Rightarrow> Inr x)"

text \<open>\<^verbatim>\<open>data[1:]\<close> on a list or tuple.\<close>

definition slice_from1 :: "pyval \<Rightarrow> pyval list" where
  "slice_from1 d = tl (items d)"

text \<open>
  The number of wrappers around the first scalar: the measure that the loop of
  \<^verbatim>\<open>set_data\<close> decreases.
\<close>

fun wrapper_depth :: "pyval \<Rightarrow> nat" where
  "wrapper_depth (PList []) = 1"
| "wrapper_depth (PList (x # xs)) = Suc (wrapper_depth x)"
| "wrapper_depth (PTuple []) = 1"
| "wrapper_depth (PTuple (x # xs)) = Suc (wrapper_depth x)"
| "wrapper_depth (PArray []) = 1"
| "wrapper_depth (PArray (x # xs)) = Suc (wrapper_depth x)"
| "wrapper_depth v = 0"


text \<open>
  \<^verbatim>\<open>value + n\<close> for an integer \<^verbatim>\<open>n\<close>: integer addition, with \<^verbatim>\<open>True\<close> and
  \<^verbatim>\<open>False\<close> counting as 1 and 0, elementwise on an array, and a \<^verbatim>\<open>TypeError\<close>
  for every other operand.
\<close>

fun py_add :: "pyval \<Rightarrow> int \<Rightarrow> error + pyval"
  and py_add_all :: "pyval list \<Rightarrow> int \<Rightarrow> error + pyval list" where
  "py_add (PInt m) n = Inr (PInt (m + n))"
| "py_add (PBool b) n = Inr (PInt ((if b then 1 else 0) + n))"
| "py_add (PArray xs) n =
     (case py_add_all xs n of Inl e \<Rightarrow> Inl e | Inr ys \<Rightarrow> Inr (PArray ys))"
| "py_add v n = Inl (TypeError ''unsupported operand type(s) for +'')"
| "py_add_all [] n = Inr []"
| "py_add_all (x # xs) n =
     (case py_add x n of
        Inl e \<Rightarrow> Inl e
      | Inr y \<Rightarrow> (case py_add_all xs n of Inl e \<Rightarrow> Inl e | Inr ys \<Rightarrow> Inr (y # ys)))"

text \<open>\<^verbatim>\<open>len(data)\<close>: integers, booleans and \<^verbatim>\<open>None\<close> have no length.\<close>

fun py_len :: "pyval \<Rightarrow> error + nat" where
  "py_len (PStr s) = Inr (length s)"
| "py_len (PList xs) = Inr (length xs)"
| "py_len (PTuple xs) = Inr (length xs)"
| "py_len (PArray xs) = Inr (length xs)"
| "py_len (PDict kvs) = Inr (length kvs)"
| "py_len v = Inl (TypeError ''object has no len()'')"

text \<open>\<^verbatim>\<open>str.upper()\<close> and \<^verbatim>\<open>str.lower()\<close> on ASCII text.\<close>

definition upper_char :: "char \<Rightarrow> char" where
  "upper_char c =
     (let n = (of_char c :: nat) in if 97 \<le> n \<and> n \<le> 122 then char_of (n - 32) else c)"

definition lower_char :: "char \<Rightarrow> char" where
  "lower_char c =
     (let n = (of_char c :: nat) in if 65 \<le> n \<and> n \<le> 90 then char_of (n + 32) else c)"

definition upper :: "string \<Rightarrow> string" where
  "upper s = map upper_char s"

definition lower :: "string \<Rightarrow> string" where
  "lower s = map lower_char s"

text \<open>
  \<^verbatim>\<open>file_entry > 1\<close> with a list on the left and an integer on the right. Python 2 orders
  values of different types and puts every number below every list, so the comparison is
  always true; Python 3 raises \<^verbatim>\<open>TypeError\<close>. \<^verbatim>\<open>file_entry == 1\<close> is false in both.
\<close>

definition py_list_gt_int :: "py_version \<Rightarrow> 'a list \<Rightarrow> int \<Rightarrow> error + bool" where
  "py_list_gt_int v xs n =
     (case v of
        Py2 \<Rightarrow> Inr True
      | Py3 \<Rightarrow> Inl (TypeError ''> not supported between instances of list and int''))"

definition py_list_eq_int :: "'a list \<Rightarrow> int \<Rightarrow> bool" where
  "py_list_eq_int xs n = False"

text \<open>\<^verbatim>\<open>sep.join(parts)\<close>\<close>

fun join :: "string \<Rightarrow> string list \<Rightarrow> string" where
  "join sep [] = []"
| "join sep [x] = x"
| "join sep (x # y # ys) = x @ sep @ join sep (y # ys)"

section \<open>The schema node, the storage engine and the collaborators\<close>

text \<open>
  The schema classes of \<^verbatim>\<open>mfstructure\<close> are not among the sources; the cell reads them
  only. A sub-item descriptor carries the attributes the cell reads (\<^verbatim>\<open>name\<close>,
  \<^verbatim>\<open>type\<close>, \<^verbatim>\<open>optional\<close>, \<^verbatim>\<open>ucase\<close>); a node carries \<^verbatim>\<open>name\<close>, \<^verbatim>\<open>type\<close>,
  \<^verbatim>\<open>data_item_structures\<close> and the values its three query methods return.
\<close>

record MFDataItemStructure =
  item_name :: string
  item_type :: string
  item_optional :: bool
  item_ucase :: bool

datatype DataType =
  scalar | scalar_keyword | scalar_transient | scalar_keyword_transient | record_datatype

record MFDataStructure =
  struct_name :: string
  struct_type :: string
  data_item_structures :: "MFDataItemStructure list"
  get_datum_type :: string
  get_datatype :: DataType
  get_data_item_types :: "string list"

text \<open>\<^verbatim>\<open>self.structure.data_item_structures[i]\<close>\<close>

definition data_item :: "MFDataStructure \<Rightarrow> nat \<Rightarrow> error + MFDataItemStructure" where
  "data_item s i =
     (if i < length (data_item_structures s) then Inr (data_item_structures s ! i)
      else Inl IndexError)"

text \<open>
  Modelled from the spec: the storage container \<^verbatim>\<open>mfdata.DataStorage\<close> is not among the
  sources. The spec gives it one slot that holds a converted value or none, with
  \<^verbatim>\<open>has_data\<close> true iff the slot holds a value, \<^verbatim>\<open>get_data\<close> returning the slot and
  \<^verbatim>\<open>set_data\<close> replacing it. \<^verbatim>\<open>PNone\<close> is the empty slot, as \<^verbatim>\<open>get_data() is None\<close>
  in the source tests it.
\<close>

record DataStorage =
  stored :: pyval

definition new_DataStorage :: DataStorage where
  "new_DataStorage = \<lparr>stored = PNone\<rparr>"

definition DataStorage_has_data :: "DataStorage \<Rightarrow> bool" where
  "DataStorage_has_data s = (stored s \<noteq> PNone)"

definition DataStorage_get_data :: "DataStorage \<Rightarrow> pyval" where
  "DataStorage_get_data s = stored s"

definition DataStorage_set_data :: "DataStorage \<Rightarrow> pyval \<Rightarrow> DataStorage" where
  "DataStorage_set_data s v = s\<lparr>stored := v\<rparr>"

text \<open>
  The collaborators whose code is not among the sources are parameters: the storage
  engine's \<^verbatim>\<open>convert_data\<close> and \<^verbatim>\<open>to_string\<close>, the line tokenizer
  \<^verbatim>\<open>ArrayUtil.split_data_line\<close>, the keyword matcher \<^verbatim>\<open>_load_keyword\<close> (it returns the
  index after the keyword and the auxiliary index), the reader of leading comment lines
  \<^verbatim>\<open>_read_pre_data_comments\<close> (it returns the current line), together with the
  simulation's \<^verbatim>\<open>indent_string\<close> and the Python version that runs the code.
\<close>

record collaborators =
  indent_string :: string
  convert_data :: "pyval \<Rightarrow> string \<Rightarrow> MFDataItemStructure \<Rightarrow> error + pyval"
  to_string :: "pyval \<Rightarrow> string \<Rightarrow> bool \<Rightarrow> string"
  split_data_line :: "string \<Rightarrow> string list"
  load_keyword :: "MFDataStructure \<Rightarrow> string list \<Rightarrow> nat \<Rightarrow> error + nat \<times> nat option"
  read_pre_data_comments :: "string \<Rightarrow> string list \<Rightarrow> error + string"
  python :: py_version


section \<open>The object state\<close>

text \<open>
  One record holds the attributes of an \<^verbatim>\<open>MFScalar\<close> or \<^verbatim>\<open>MFScalarTransient\<close>
  object that the methods read and write. \<^verbatim>\<open>_data_storage\<close> is a single
  \<^verbatim>\<open>DataStorage\<close> in an \<^verbatim>\<open>MFScalar\<close> and an \<^verbatim>\<open>OrderedDict\<close> from key to
  \<^verbatim>\<open>DataStorage\<close> object in an \<^verbatim>\<open>MFScalarTransient\<close>. The dictionary holds
  references: an entry is the address of an object in \<open>heap\<close>, so that two keys
  sharing one object is a state the model can express. The dictionary is an association
  list in insertion order.
\<close>

datatype storage_ref = Single DataStorage | Keyed "(int \<times> nat) list"

record MFData =
  struct :: MFDataStructure
  data_name :: string
  data_type :: string
  current_key :: "int option"
  data_storage :: storage_ref
  heap :: "DataStorage list"
  data_line_comments :: "pyval list list"
  repeating :: bool

text \<open>\<^verbatim>\<open>key in d\<close> and \<^verbatim>\<open>d[key]\<close> and \<^verbatim>\<open>d.keys()\<close> of an \<^verbatim>\<open>OrderedDict\<close>.\<close>

definition od_keys :: "(int \<times> 'v) list \<Rightarrow> int list" where
  "od_keys d = map fst d"

definition od_get :: "(int \<times> 'v) list \<Rightarrow> int \<Rightarrow> 'v option" where
  "od_get d k = map_of d k"

text \<open>
  \<^verbatim>\<open>d[key] = v\<close>: an existing key keeps its position and gets the new value, a new key
  goes to the end.
\<close>

fun od_set :: "(int \<times> 'v) list \<Rightarrow> int \<Rightarrow> 'v \<Rightarrow> (int \<times> 'v) list" where
  "od_set [] k v = [(k, v)]"
| "od_set ((k', v') # d) k v = (if k' = k then (k, v) # d else (k', v') # od_set d k v)"

text \<open>The object at an address of the heap.\<close>

definition deref :: "DataStorage list \<Rightarrow> nat \<Rightarrow> DataStorage option" where
  "deref h a = (if a < length h then Some (h ! a) else None)"

text \<open>
  \<^verbatim>\<open>_get_storage_obj\<close>: \<^verbatim>\<open>MFScalar\<close> returns its storage; \<^verbatim>\<open>MFScalarTransient\<close>
  returns \<^verbatim>\<open>None\<close> when no key is current or the current key is not registered, and the
  object registered for the current key otherwise.
\<close>

definition get_storage_obj :: "MFData \<Rightarrow> DataStorage option" where
  "get_storage_obj st =
     (case data_storage st of
        Single sto \<Rightarrow> Some sto
      | Keyed d \<Rightarrow>
          (case current_key st of
             None \<Rightarrow> None
           | Some k \<Rightarrow> (case od_get d k of None \<Rightarrow> None | Some a \<Rightarrow> deref (heap st) a)))"

text \<open>
  A mutation of the object that \<^verbatim>\<open>_get_storage_obj\<close> returned: the object is replaced
  by its new state where it lives.
\<close>

definition put_storage_obj :: "MFData \<Rightarrow> DataStorage \<Rightarrow> MFData" where
  "put_storage_obj st sto =
     (case data_storage st of
        Single old \<Rightarrow> st\<lparr>data_storage := Single sto\<rparr>
      | Keyed d \<Rightarrow>
          (case current_key st of
             None \<Rightarrow> st
           | Some k \<Rightarrow>
               (case od_get d k of
                  None \<Rightarrow> st
                | Some a \<Rightarrow> st\<lparr>heap := (heap st)[a := sto]\<rparr>)))"

text \<open>
  Modelled from the spec: \<^verbatim>\<open>MFData._add_data_line_comment\<close> is not among the sources.
  The spec's comment sink accepts trailing tokens as an inline comment; the model keeps
  every accepted token list, in the order of the calls.
\<close>

definition add_data_line_comment :: "MFData \<Rightarrow> pyval list \<Rightarrow> MFData" where
  "add_data_line_comment st tokens =
     st\<lparr>data_line_comments := data_line_comments st @ [tokens]\<rparr>"

section \<open>MFScalar\<close>

text \<open>
  The loop of \<^verbatim>\<open>set_data\<close> (lines 68 to 71). It returns the unwrapped value, or the
  \<^verbatim>\<open>IndexError\<close> of \<^verbatim>\<open>data[0]\<close>, and the state with the comments recorded so far.
\<close>

function set_data_loop :: "pyval \<Rightarrow> MFData \<Rightarrow> (error + pyval) \<times> MFData" where
  "set_data_loop data st =
     (if is_wrapper data then
        (case getitem0 data of
           Inl e \<Rightarrow> (Inl e, st)
         | Inr d \<Rightarrow>
             set_data_loop d
               (if is_list_or_tuple d \<and> length (items d) > 1
                then add_data_line_comment st (slice_from1 d) else st))
      else (Inr data, st))"
  by pat_completeness auto
termination
proof (relation "measure (\<lambda>(d, st). wrapper_depth d)")
  show "wf (measure (\<lambda>(d, st). wrapper_depth d))"
    by simp
next
  fix data :: pyval and st :: MFData and d :: pyval
  assume w: "is_wrapper data" and g: "getitem0 data = Inr d"
  from w g have "wrapper_depth d < wrapper_depth data"
    by (cases data) (auto simp: getitem0_def split: list.splits)
  then show "((d, if is_list_or_tuple d \<and> 1 < length (items d)
                  then add_data_line_comment st (slice_from1 d) else st), data, st)
             \<in> measure (\<lambda>(d, st). wrapper_depth d)"
    by simp
qed

text \<open>
  \<^verbatim>\<open>set_data\<close> (lines 67 to 74). After the loop, Python looks up \<^verbatim>\<open>set_data\<close> and
  \<^verbatim>\<open>convert_data\<close> on the storage object (an \<^verbatim>\<open>AttributeError\<close> when it is
  \<^verbatim>\<open>None\<close>), then reads \<^verbatim>\<open>data_item_structures[0]\<close>, converts and stores.
\<close>

definition MFScalar_set_data ::
  "collaborators \<Rightarrow> MFData \<Rightarrow> pyval \<Rightarrow> (error + unit) \<times> MFData" where
  "MFScalar_set_data env st data =
     (case set_data_loop data st of
        (Inl e, st1) \<Rightarrow> (Inl e, st1)
      | (Inr d, st1) \<Rightarrow>
          (case get_storage_obj st1 of
             None \<Rightarrow> (Inl (AttributeError ''set_data''), st1)
           | Some sto \<Rightarrow>
               (case data_item (struct st1) 0 of
                  Inl e \<Rightarrow> (Inl e, st1)
                | Inr di \<Rightarrow>
                    (case convert_data env d (data_type st1) di of
                       Inl e \<Rightarrow> (Inl e, st1)
                     | Inr v \<Rightarrow> (Inr (), put_storage_obj st1 (DataStorage_set_data sto v))))))"

text \<open>\<^verbatim>\<open>has_data\<close> (lines 61 and 62) and \<^verbatim>\<open>get_data\<close> with its default argument.\<close>

definition MFScalar_has_data :: "MFData \<Rightarrow> error + bool" where
  "MFScalar_has_data st =
     (case get_storage_obj st of
        None \<Rightarrow> Inl (AttributeError ''has_data'')
      | Some sto \<Rightarrow> Inr (DataStorage_has_data sto))"

definition MFScalar_get_data :: "MFData \<Rightarrow> error + pyval" where
  "MFScalar_get_data st =
     (case get_storage_obj st of
        None \<Rightarrow> Inl (AttributeError ''get_data'')
      | Some sto \<Rightarrow> Inr (DataStorage_get_data sto))"

text \<open>
  Modelled from the spec: the base class constructor \<^verbatim>\<open>MFData.__init__\<close> is not among
  the sources. It keeps the schema node, names the cell after the field, leaves no key
  current and no comment recorded. \<^verbatim>\<open>_data_type\<close> and \<^verbatim>\<open>_data_storage\<close> are
  assigned by the subclass constructor; until then they hold placeholders.
\<close>

definition MFData_init :: "MFDataStructure \<Rightarrow> MFData" where
  "MFData_init s =
     \<lparr>struct = s, data_name = struct_name s, data_type = [], current_key = None,
      data_storage = Keyed [], heap = [], data_line_comments = [], repeating = False\<rparr>"

text \<open>\<^verbatim>\<open>MFScalar._new_storage\<close> (lines 176 to 180): a new, empty storage object.\<close>

definition MFScalar_new_storage :: DataStorage where
  "MFScalar_new_storage = new_DataStorage"

text \<open>
  \<^verbatim>\<open>MFScalar.__init__\<close> (lines 54 to 59); \<^verbatim>\<open>data\<close> is \<^verbatim>\<open>None\<close> when the caller gives
  none. \<open>new_storage\<close> is what \<^verbatim>\<open>self._new_storage()\<close> returns in the class of the
  object under construction. An exception leaves no object.
\<close>

definition MFScalar_init ::
  "collaborators \<Rightarrow> storage_ref \<Rightarrow> MFDataStructure \<Rightarrow> pyval \<Rightarrow> error + MFData" where
  "MFScalar_init env new_storage s data =
     (case data_item s 0 of
        Inl e \<Rightarrow> Inl e
      | Inr di \<Rightarrow>
          (let st = (MFData_init s)\<lparr>data_type := item_type di, data_storage := new_storage\<rparr>
           in if data = PNone then Inr st
              else (case MFScalar_set_data env st data of
                      (Inl e, st') \<Rightarrow> Inl e
                    | (Inr u, st') \<Rightarrow> Inr st')))"

text \<open>The constructor of an \<^verbatim>\<open>MFScalar\<close> proper.\<close>

definition new_MFScalar :: "collaborators \<Rightarrow> MFDataStructure \<Rightarrow> pyval \<Rightarrow> error + MFData" where
  "new_MFScalar env s data = MFScalar_init env (Single MFScalar_new_storage) s data"

text \<open>
  \<^verbatim>\<open>add_one\<close> (lines 76 to 86). The message is built with \<^verbatim>\<open>str.format\<close>; printing it
  is not modelled.
\<close>

definition MFScalar_add_one :: "MFData \<Rightarrow> (error + unit) \<times> MFData" where
  "MFScalar_add_one st =
     (if get_datum_type (struct st) = ''int'' \<or> get_datum_type (struct st) = ''integer''
      then
        (case get_storage_obj st of
           None \<Rightarrow> (Inl (AttributeError ''get_data''), st)
         | Some sto \<Rightarrow>
             (if DataStorage_get_data sto = PNone
              then (Inr (), put_storage_obj st (DataStorage_set_data sto (PInt 1)))
              else
                (case py_add (DataStorage_get_data sto) 1 of
                   Inl e \<Rightarrow> (Inl e, st)
                 | Inr v \<Rightarrow> (Inr (), put_storage_obj st (DataStorage_set_data sto v)))))
      else
        (Inl (MFFileParseException
               (data_name st @ '' of type '' @ get_datum_type (struct st)
                @ '' does not support add one operation.'')), st))"


definition newline :: string where
  "newline = [CHR 0x0A]"

definition dquote :: string where
  "dquote = [CHR 0x22]"

text \<open>A text that holds no newline character.\<close>

definition nl_free :: "string \<Rightarrow> bool" where
  "nl_free s = (CHR 0x0A \<notin> set s)"

text \<open>
  The loop of the \<^verbatim>\<open>record\<close> branch of \<^verbatim>\<open>get_file_entry\<close> (lines 97 to 106), with
  \<open>data\<close> the stored value and \<open>text_line\<close> the list built so far.
\<close>

fun record_text_line ::
  "collaborators \<Rightarrow> string \<Rightarrow> pyval \<Rightarrow> MFDataItemStructure list \<Rightarrow> string list
     \<Rightarrow> error + string list" where
  "record_text_line env dtype data [] text_line = Inr text_line"
| "record_text_line env dtype data (di # dis) text_line =
     (if lower (item_type di) = ''keyword'' \<and> item_optional di = False
      then record_text_line env dtype data dis (text_line @ [upper (item_name di)])
      else
        (case py_len data of
           Inl e \<Rightarrow> Inl e
         | Inr n \<Rightarrow>
             record_text_line env dtype data dis
               (if n > 0 then text_line @ [to_string env data dtype (item_ucase di)]
                else text_line)))"

text \<open>
  \<^verbatim>\<open>get_file_entry\<close> (lines 88 to 127); \<^verbatim>\<open>ext_file_action\<close> is not used by the method.
  The state is returned next to the text, so that what the method leaves of the object
  can be stated. With \<^verbatim>\<open>one_based\<close> the \<^verbatim>\<open>assert\<close> of line 112 comes first.
\<close>

definition MFScalar_get_file_entry ::
  "collaborators \<Rightarrow> MFData \<Rightarrow> bool \<Rightarrow> bool \<Rightarrow> (error + string) \<times> MFData" where
  "MFScalar_get_file_entry env st values_only one_based =
     (case get_storage_obj st of
        None \<Rightarrow> (Inr [], st)
      | Some sto \<Rightarrow>
          (if DataStorage_get_data sto = PNone then (Inr [], st)
           else if struct_type (struct st) = ''keyword''
           then (Inr (indent_string env @ upper (struct_name (struct st)) @ newline), st)
           else if struct_type (struct st) = ''record''
           then
             (case record_text_line env (data_type st) (DataStorage_get_data sto)
                     (data_item_structures (struct st)) [] of
                Inl e \<Rightarrow> (Inl e, st)
              | Inr text_line \<Rightarrow>
                  (Inr (indent_string env @ join (indent_string env) text_line @ newline), st))
           else
             (case data_item (struct st) 0 of
                Inl e \<Rightarrow> (Inl e, st)
              | Inr di \<Rightarrow>
                  (case (if one_based
                         then (if struct_type (struct st) = ''integer''
                                  \<or> struct_type (struct st) = ''int''
                               then py_add (DataStorage_get_data sto) 1
                               else Inl AssertionError)
                         else Inr (DataStorage_get_data sto)) of
                     Inl e \<Rightarrow> (Inl e, st)
                   | Inr data \<Rightarrow>
                       (if values_only
                        then (Inr (indent_string env
                                   @ to_string env data (data_type st) (item_ucase di)), st)
                        else (Inr (indent_string env @ upper (struct_name (struct st))
                                   @ indent_string env
                                   @ to_string env data (data_type st) (item_ucase di)
                                   @ newline), st))))))"


text \<open>
  The loop of the \<^verbatim>\<open>record\<close> branch of \<^verbatim>\<open>load\<close> (lines 143 to 147): \<open>types\<close> are
  the item types still to visit, \<open>index\<close> the index reached. The three tests of the
  \<^verbatim>\<open>or\<close> are made in order, so \<^verbatim>\<open>data_item_structures[index]\<close> is read only when
  the first two fail and \<^verbatim>\<open>index > 0\<close>.
\<close>

fun load_record_index ::
  "MFDataStructure \<Rightarrow> string list \<Rightarrow> string list \<Rightarrow> nat \<Rightarrow> error + nat" where
  "load_record_index s arr_line [] index = Inr index"
| "load_record_index s arr_line (t # types) index =
     (if length arr_line \<le> index + 1 then Inr index
      else if t \<noteq> ''keyword'' then Inr index
      else if index > 0
      then
        (case data_item s index of
           Inl e \<Rightarrow> Inl e
         | Inr di \<Rightarrow>
             (if item_optional di = True then Inr index
              else load_record_index s arr_line types (index + 1)))
      else load_record_index s arr_line types (index + 1))"

text \<open>\<^verbatim>\<open>arr_line[i]\<close>\<close>

definition token_at :: "string list \<Rightarrow> nat \<Rightarrow> error + string" where
  "token_at arr_line i = (if i < length arr_line then Inr (arr_line ! i) else Inl IndexError)"

text \<open>
  The "store data" part of \<^verbatim>\<open>load\<close> (lines 140 to 169): the three branches on the
  schema. It returns \<^verbatim>\<open>index_num\<close> as the branch leaves it.
\<close>

definition load_store ::
  "collaborators \<Rightarrow> MFData \<Rightarrow> string \<Rightarrow> string list \<Rightarrow> nat \<Rightarrow> (error + nat) \<times> MFData" where
  "load_store env st current_line arr_line index_num =
     (if struct_type (struct st) = ''record''
      then
        (case load_record_index (struct st) arr_line (get_data_item_types (struct st)) 0 of
           Inl e \<Rightarrow> (Inl e, st)
         | Inr index \<Rightarrow>
             (case get_storage_obj st of
                None \<Rightarrow> (Inl (AttributeError ''set_data''), st)
              | Some sto \<Rightarrow>
                  (case token_at arr_line index of
                     Inl e \<Rightarrow> (Inl e, st)
                   | Inr tok \<Rightarrow>
                       (case data_item (struct st) index of
                          Inl e \<Rightarrow> (Inl e, st)
                        | Inr di \<Rightarrow>
                            (case data_item (struct st) 0 of
                               Inl e \<Rightarrow> (Inl e, st)
                             | Inr di0 \<Rightarrow>
                                 (case convert_data env (PStr tok) (item_type di) di0 of
                                    Inl e \<Rightarrow> (Inl e, st)
                                  | Inr v \<Rightarrow>
                                      (Inr index_num,
                                       put_storage_obj st (DataStorage_set_data sto v))))))))
      else if get_datatype (struct st) = scalar_keyword
              \<or> get_datatype (struct st) = scalar_keyword_transient
      then
        (case get_storage_obj st of
           None \<Rightarrow> (Inl (AttributeError ''set_data''), st)
         | Some sto \<Rightarrow>
             (Inr index_num, put_storage_obj st (DataStorage_set_data sto (PBool True))))
      else if length arr_line < 1 + index_num
      then
        (case data_item (struct st) 0 of
           Inl e \<Rightarrow> (Inl e, st)
         | Inr di0 \<Rightarrow>
             (Inl (MFFileParseException
                    (''Error reading variable '' @ dquote @ data_name st @ dquote
                     @ ''.  Expected data after label '' @ dquote @ lower (item_name di0)
                     @ dquote @ '' not found at line '' @ dquote @ current_line @ dquote
                     @ ''.'')), st))
      else
        (case get_storage_obj st of
           None \<Rightarrow> (Inl (AttributeError ''set_data''), st)
         | Some sto \<Rightarrow>
             (case token_at arr_line index_num of
                Inl e \<Rightarrow> (Inl e, st)
              | Inr tok \<Rightarrow>
                  (case data_item (struct st) 0 of
                     Inl e \<Rightarrow> (Inl e, st)
                   | Inr di0 \<Rightarrow>
                       (case convert_data env (PStr tok) (data_type st) di0 of
                          Inl e \<Rightarrow> (Inl e, st)
                        | Inr v \<Rightarrow>
                            (Inr (index_num + 1),
                             put_storage_obj st (DataStorage_set_data sto v)))))))"

text \<open>
  \<^verbatim>\<open>load\<close> (lines 129 to 174). \<open>file_handle\<close> is the text that follows the first line.
  The base class \<^verbatim>\<open>MFData.load\<close> called first is not among the sources and the spec
  gives it no effect on the cell. The result \<^verbatim>\<open>[False, None]\<close> is a pair.
\<close>

definition MFScalar_load ::
  "collaborators \<Rightarrow> MFData \<Rightarrow> string \<Rightarrow> string list
     \<Rightarrow> (error + bool \<times> string option) \<times> MFData" where
  "MFScalar_load env st first_line file_handle =
     (case read_pre_data_comments env first_line file_handle of
        Inl e \<Rightarrow> (Inl e, st)
      | Inr current_line \<Rightarrow>
          (let arr_line = split_data_line env current_line in
           case load_keyword env (struct st) arr_line 0 of
             Inl e \<Rightarrow> (Inl e, st)
           | Inr (index_num, aux_var_index) \<Rightarrow>
               (case load_store env st current_line arr_line index_num of
                  (Inl e, st1) \<Rightarrow> (Inl e, st1)
                | (Inr index_num', st1) \<Rightarrow>
                    (Inr (False, None),
                     if length arr_line > index_num'
                     then add_data_line_comment st1 (map PStr (drop index_num' arr_line))
                     else st1))))"

section \<open>MFScalarTransient\<close>

text \<open>
  Modelled from the spec: the mixin \<^verbatim>\<open>mfdata.MFTransient\<close> is not among the sources.
  The spec has each of its preparation steps (\<^verbatim>\<open>get_data_prep\<close>,
  \<^verbatim>\<open>_set_data_prep\<close>, \<^verbatim>\<open>_get_file_entry_prep\<close>, \<^verbatim>\<open>_load_prep\<close>,
  \<^verbatim>\<open>_update_record_prep\<close>) designate the given key as the active one and nothing else;
  a set with no key given keeps the active key. \<^verbatim>\<open>_load_prep\<close> takes its key from the
  block header, which the model receives as that key. The mixin's own
  \<^verbatim>\<open>add_transient_key\<close> and \<^verbatim>\<open>_transient_setup\<close> change nothing the model holds.
\<close>

definition get_data_prep :: "MFData \<Rightarrow> int \<Rightarrow> MFData" where
  "get_data_prep st key = st\<lparr>current_key := Some key\<rparr>"

definition set_data_prep :: "MFData \<Rightarrow> int option \<Rightarrow> MFData" where
  "set_data_prep st key = (case key of None \<Rightarrow> st | Some k \<Rightarrow> st\<lparr>current_key := Some k\<rparr>)"

definition get_file_entry_prep :: "MFData \<Rightarrow> int \<Rightarrow> MFData" where
  "get_file_entry_prep st key = st\<lparr>current_key := Some key\<rparr>"

definition load_prep :: "MFData \<Rightarrow> int \<Rightarrow> MFData" where
  "load_prep st key = st\<lparr>current_key := Some key\<rparr>"

definition update_record_prep :: "MFData \<Rightarrow> int \<Rightarrow> MFData" where
  "update_record_prep st key = st\<lparr>current_key := Some key\<rparr>"

text \<open>
  \<^verbatim>\<open>MFScalarTransient.__init__\<close> (lines 237 to 244): \<^verbatim>\<open>_new_storage\<close> is the
  overriding one of lines 303 and 304, an empty \<^verbatim>\<open>OrderedDict\<close>.
\<close>

definition MFScalarTransient_new_storage :: storage_ref where
  "MFScalarTransient_new_storage = Keyed []"

definition new_MFScalarTransient :: "collaborators \<Rightarrow> MFDataStructure \<Rightarrow> error + MFData" where
  "new_MFScalarTransient env s =
     (case MFScalar_init env MFScalarTransient_new_storage s PNone of
        Inl e \<Rightarrow> Inl e
      | Inr st \<Rightarrow> Inr (st\<lparr>repeating := True\<rparr>))"

text \<open>
  \<^verbatim>\<open>add_transient_key\<close> (lines 246 to 248): a new storage object is created, at a fresh
  address, and the dictionary entry of the key is set to it. Item assignment on anything
  but the dictionary is a \<^verbatim>\<open>TypeError\<close>.
\<close>

definition MFScalarTransient_add_transient_key :: "MFData \<Rightarrow> int \<Rightarrow> (error + unit) \<times> MFData" where
  "MFScalarTransient_add_transient_key st key =
     (case data_storage st of
        Single sto \<Rightarrow> (Inl (TypeError ''object does not support item assignment''), st)
      | Keyed d \<Rightarrow>
          (Inr (), st\<lparr>heap := heap st @ [MFScalar_new_storage],
                      data_storage := Keyed (od_set d key (length (heap st)))\<rparr>))"

text \<open>\<^verbatim>\<open>add_one\<close> (lines 250 to 252) and \<^verbatim>\<open>get_data\<close> (lines 267 to 269).\<close>

definition MFScalarTransient_add_one :: "MFData \<Rightarrow> int \<Rightarrow> (error + unit) \<times> MFData" where
  "MFScalarTransient_add_one st key = MFScalar_add_one (update_record_prep st key)"

definition MFScalarTransient_get_data :: "MFData \<Rightarrow> int \<Rightarrow> (error + pyval) \<times> MFData" where
  "MFScalarTransient_get_data st key =
     (let st1 = get_data_prep st key in (MFScalar_get_data st1, st1))"

text \<open>
  \<^verbatim>\<open>has_data\<close> (lines 254 to 265). In the loop \<^verbatim>\<open>data_found\<close> is false whenever an
  iteration starts, since a true value leaves the loop.
\<close>

fun has_data_loop :: "MFData \<Rightarrow> int list \<Rightarrow> (error + bool) \<times> MFData" where
  "has_data_loop st [] = (Inr False, st)"
| "has_data_loop st (sto_key # keys) =
     (let st1 = get_data_prep st sto_key in
      case MFScalar_has_data st1 of
        Inl e \<Rightarrow> (Inl e, st1)
      | Inr data_found \<Rightarrow> (if data_found then (Inr True, st1) else has_data_loop st1 keys))"

definition MFScalarTransient_has_data :: "MFData \<Rightarrow> int option \<Rightarrow> (error + bool) \<times> MFData" where
  "MFScalarTransient_has_data st key =
     (case key of
        None \<Rightarrow>
          (case data_storage st of
             Single sto \<Rightarrow> (Inl (AttributeError ''keys''), st)
           | Keyed d \<Rightarrow> has_data_loop st (od_keys d))
      | Some k \<Rightarrow> (let st1 = get_data_prep st k in (MFScalar_has_data st1, st1)))"

text \<open>
  \<^verbatim>\<open>set_data\<close> (lines 271 to 280): a dictionary is walked entry by entry, anything else
  is one set at the given key.
\<close>

fun set_data_items ::
  "collaborators \<Rightarrow> MFData \<Rightarrow> (int \<times> pyval) list \<Rightarrow> (error + unit) \<times> MFData" where
  "set_data_items env st [] = (Inr (), st)"
| "set_data_items env st ((key, list_item) # rest) =
     (case MFScalar_set_data env (set_data_prep st (Some key)) list_item of
        (Inl e, st1) \<Rightarrow> (Inl e, st1)
      | (Inr u, st1) \<Rightarrow> set_data_items env st1 rest)"

definition MFScalarTransient_set_data ::
  "collaborators \<Rightarrow> MFData \<Rightarrow> pyval \<Rightarrow> int option \<Rightarrow> (error + unit) \<times> MFData" where
  "MFScalarTransient_set_data env st data key =
     (case data of
        PDict entries \<Rightarrow> set_data_items env st entries
      | _ \<Rightarrow> MFScalar_set_data env (set_data_prep st key) data)"

text \<open>
  \<^verbatim>\<open>get_file_entry\<close> (lines 282 to 297). The loop collects the entries; the tests of
  lines 289 and 291 compare the list itself with 1.
\<close>

fun get_file_entry_loop ::
  "collaborators \<Rightarrow> MFData \<Rightarrow> int list \<Rightarrow> string list \<Rightarrow> (error + string list) \<times> MFData" where
  "get_file_entry_loop env st [] file_entry = (Inr file_entry, st)"
| "get_file_entry_loop env st (sto_key # keys) file_entry =
     (case MFScalarTransient_has_data st (Some sto_key) of
        (Inl e, st1) \<Rightarrow> (Inl e, st1)
      | (Inr found, st1) \<Rightarrow>
          (if found
           then
             (case MFScalar_get_file_entry env (get_file_entry_prep st1 sto_key) False False of
                (Inl e, st2) \<Rightarrow> (Inl e, st2)
              | (Inr entry, st2) \<Rightarrow> get_file_entry_loop env st2 keys (file_entry @ [entry]))
           else get_file_entry_loop env st1 keys file_entry))"

definition MFScalarTransient_get_file_entry ::
  "collaborators \<Rightarrow> MFData \<Rightarrow> int option \<Rightarrow> (error + string) \<times> MFData" where
  "MFScalarTransient_get_file_entry env st key =
     (case key of
        None \<Rightarrow>
          (case data_storage st of
             Single sto \<Rightarrow> (Inl (AttributeError ''keys''), st)
           | Keyed d \<Rightarrow>
               (case get_file_entry_loop env st (od_keys d) [] of
                  (Inl e, st1) \<Rightarrow> (Inl e, st1)
                | (Inr file_entry, st1) \<Rightarrow>
                    (case py_list_gt_int (python env) file_entry 1 of
                       Inl e \<Rightarrow> (Inl e, st1)
                     | Inr gt \<Rightarrow>
                         (if gt then (Inr (join (newline @ newline) file_entry), st1)
                          else if py_list_eq_int file_entry 1
                          then (case file_entry of
                                  [] \<Rightarrow> (Inl IndexError, st1)
                                | entry # others \<Rightarrow> (Inr entry, st1))
                          else (Inr [], st1)))))
      | Some k \<Rightarrow> MFScalar_get_file_entry env (get_file_entry_prep st k) False False)"

text \<open>
  \<^verbatim>\<open>load\<close> (lines 299 to 301); \<open>key\<close> is the key \<^verbatim>\<open>_load_prep\<close> reads off the block
  header.
\<close>

definition MFScalarTransient_load ::
  "collaborators \<Rightarrow> MFData \<Rightarrow> int \<Rightarrow> string \<Rightarrow> string list
     \<Rightarrow> (error + bool \<times> string option) \<times> MFData" where
  "MFScalarTransient_load env st key first_line file_handle =
     MFScalar_load env (load_prep st key) first_line file_handle"

section \<open>ModflowPcgn\<close>

text \<open>\<^verbatim>\<open>'{0}'.format(n)\<close> for an integer: its decimal digits, after a minus sign if negative.\<close>

fun str_nat :: "nat \<Rightarrow> string" where
  "str_nat n =
     (if n < 10 then [char_of (48 + n)] else str_nat (n div 10) @ [char_of (48 + n mod 10)])"

declare str_nat.simps [simp del]

definition str_int :: "int \<Rightarrow> string" where
  "str_int i = (if i < 0 then CHR ''-'' # str_nat (nat (- i)) else str_nat (nat i))"

text \<open>
  The attributes of a \<^verbatim>\<open>ModflowPcgn\<close> object: the four lists handed to the ancestor's
  constructor and the integer settings. The floating-point settings (\<^verbatim>\<open>close_h\<close>,
  \<^verbatim>\<open>relax\<close>, \<^verbatim>\<open>damp\<close> and the like) are stored and never tested; they are left out.
\<close>

record ModflowPcgn =
  extension :: "string list"
  name :: "string list"
  unit_number :: "int list"
  extra :: "string list"
  heading :: string
  url :: string
  iter_mo :: int
  iter_mi :: int
  ifill :: int
  unit_pc :: int
  unit_ts :: int
  adamp :: int
  acnvg :: int
  mcnvg :: int
  ipunit :: int

text \<open>
  The loop of lines 16 to 21 over \<^verbatim>\<open>zip(tu, ea)\<close>: a positive unit adds a file to each
  of the four lists.
\<close>

fun pcgn_files ::
  "(int \<times> string) list \<Rightarrow> string list \<times> string list \<times> int list \<times> string list
     \<Rightarrow> string list \<times> string list \<times> int list \<times> string list" where
  "pcgn_files [] acc = acc"
| "pcgn_files ((t, e) # rest) (ext, nam, units, extr) =
     (if t > 0
      then pcgn_files rest (ext @ [e], nam @ [''DATA''], units @ [t], extr @ [''REPLACE''])
      else pcgn_files rest (ext, nam, units, extr))"

text \<open>
  \<^verbatim>\<open>ModflowPcgn.__init__\<close> (lines 6 to 48), with the integer arguments in the order of
  the signature and \<open>ext\<close> the \<^verbatim>\<open>extension\<close> list. The ancestor's constructor is not
  among the sources; line 22 documents it as setting the parent, the extension, the name
  and the unit number. The parent's \<^verbatim>\<open>add_package\<close> is not among the sources either
  and is the parameter \<open>add_package\<close>, applied to the parent and the finished package.
  The result is the outcome and the parent as the constructor leaves it.
\<close>

definition ModflowPcgn_init ::
  "('m \<Rightarrow> ModflowPcgn \<Rightarrow> error + 'm) \<Rightarrow> 'm \<Rightarrow> int \<Rightarrow> int \<Rightarrow> int \<Rightarrow> int \<Rightarrow> int \<Rightarrow> int
     \<Rightarrow> int \<Rightarrow> int \<Rightarrow> int \<Rightarrow> string list \<Rightarrow> int \<Rightarrow> (error + ModflowPcgn) \<times> 'm" where
  "ModflowPcgn_init add_package model iter_mo' iter_mi' ifill' unit_pc' unit_ts' adamp'
       acnvg' mcnvg' ipunit' ext unit_number' =
     (case pcgn_files
             (zip [unit_pc', unit_ts', ipunit'] [''pcgni'', ''pcgnt'', ''pcgno''])
             (ext, [''PCGN''], [unit_number'], [[]]) of
        (ext1, nam, units, extr) \<Rightarrow>
          (let self =
                 \<lparr>extension = ext1, name = nam, unit_number = units, extra = extr,
                  heading = ''# PCGN for MODFLOW, generated by Flopy.'', url = ''pcgn.htm'',
                  iter_mo = iter_mo', iter_mi = iter_mi', ifill = ifill',
                  unit_pc = unit_pc', unit_ts = unit_ts', adamp = adamp', acnvg = acnvg',
                  mcnvg = mcnvg', ipunit = ipunit'\<rparr>
           in if ifill self < 0 \<or> ifill self > 1
              then
                (Inl (TypeError
                       (''PCGN: ifill must be 0 or 1 - an ifill value of ''
                        @ str_int (ifill self) @ '' was specified'')), model)
              else
                (case add_package model self of
                   Inl e \<Rightarrow> (Inl e, model)
                 | Inr model' \<Rightarrow> (Inr self, model'))))"

section \<open>The wording of the claims about unwrapping\<close>

text \<open>
  Three functions state, by recursion on the value, what the claims say of the loop of
  \<^verbatim>\<open>set_data\<close>; they are compared with \<open>set_data_loop\<close> below. Every wrapper on
  the way from the raw value to its first scalar is non-empty:
\<close>

fun nonempty_layers :: "pyval \<Rightarrow> bool" where
  "nonempty_layers (PList []) = False"
| "nonempty_layers (PList (x # xs)) = nonempty_layers x"
| "nonempty_layers (PTuple []) = False"
| "nonempty_layers (PTuple (x # xs)) = nonempty_layers x"
| "nonempty_layers (PArray []) = False"
| "nonempty_layers (PArray (x # xs)) = nonempty_layers x"
| "nonempty_layers v = True"

text \<open>The value left when the first element of each wrapper is taken in turn:\<close>

fun first_scalar :: "pyval \<Rightarrow> pyval" where
  "first_scalar (PList (x # xs)) = first_scalar x"
| "first_scalar (PTuple (x # xs)) = first_scalar x"
| "first_scalar (PArray (x # xs)) = first_scalar x"
| "first_scalar v = v"

text \<open>
  The comment of one layer: an element taken out of a wrapper that is itself a list or a
  tuple of more than one element gives its elements from index 1 on. The comments of a
  raw value are those of the layers met on the way down, outermost first.
\<close>

definition layer_comment :: "pyval \<Rightarrow> pyval list list" where
  "layer_comment x = (if is_list_or_tuple x \<and> 1 < length (items x) then [tl (items x)] else [])"

fun trailing_comments :: "pyval \<Rightarrow> pyval list list" where
  "trailing_comments (PList (x # xs)) = layer_comment x @ trailing_comments x"
| "trailing_comments (PTuple (x # xs)) = layer_comment x @ trailing_comments x"
| "trailing_comments (PArray (x # xs)) = layer_comment x @ trailing_comments x"
| "trailing_comments v = []"

section \<open>The cells of a transient sequence\<close>

text \<open>The storage object registered for a key, read through the dictionary and the heap.\<close>

definition cell_of :: "MFData \<Rightarrow> int \<Rightarrow> DataStorage option" where
  "cell_of st k =
     (case data_storage st of
        Single sto \<Rightarrow> None
      | Keyed d \<Rightarrow> (case od_get d k of None \<Rightarrow> None | Some a \<Rightarrow> deref (heap st) a))"

text \<open>
  Every key owns its cell: a key is registered once, no address is registered for two
  keys, and every registered address holds an object.
\<close>

definition own_cells :: "MFData \<Rightarrow> bool" where
  "own_cells st =
     (case data_storage st of
        Single sto \<Rightarrow> True
      | Keyed d \<Rightarrow>
          distinct (map fst d) \<and> distinct (map snd d)
          \<and> list_all (\<lambda>a. a < length (heap st)) (map snd d))"

text \<open>\<^verbatim>\<open>isinstance(data, dict) or isinstance(data, OrderedDict)\<close>\<close>

fun is_dict :: "pyval \<Rightarrow> bool" where
  "is_dict (PDict entries) = True"
| "is_dict v = False"

section \<open>Collaborators for the examples\<close>

text \<open>
  Modelled from the spec: the storage engine, the tokenizer and the keyword matcher are
  not among the sources. For evaluating the model on examples, one set of collaborators
  that meets the spec's interface contracts: conversion to a declared integer type reads
  an integer, a boolean or a string of decimal digits and fails on anything else, other
  declared types keep any value but \<^verbatim>\<open>None\<close>; the stringifier writes an integer in
  decimal and a string as it is or in upper case; the tokenizer splits at blanks; the
  keyword matcher accepts the field's name at the start index, in any case; no comment
  line precedes the data; the indent is two blanks.
\<close>

fun digits_value :: "string \<Rightarrow> nat \<Rightarrow> nat option" where
  "digits_value [] acc = Some acc"
| "digits_value (c # cs) acc =
     (let n = (of_char c :: nat) in
      if 48 \<le> n \<and> n \<le> 57 then digits_value cs (10 * acc + (n - 48)) else None)"

definition example_convert_data ::
  "pyval \<Rightarrow> string \<Rightarrow> MFDataItemStructure \<Rightarrow> error + pyval" where
  "example_convert_data raw t di =
     (if t = ''integer'' \<or> t = ''int''
      then
        (case raw of
           PInt n \<Rightarrow> Inr (PInt n)
         | PBool b \<Rightarrow> Inr (PInt (if b then 1 else 0))
         | PStr s \<Rightarrow>
             (if s = [] then Inl (ConversionError s)
              else (case digits_value s 0 of
                      None \<Rightarrow> Inl (ConversionError s)
                    | Some n \<Rightarrow> Inr (PInt (int n))))
         | _ \<Rightarrow> Inl (ConversionError ''not an integer''))
      else (case raw of PNone \<Rightarrow> Inl (ConversionError ''no value'') | _ \<Rightarrow> Inr raw))"

definition example_to_string :: "pyval \<Rightarrow> string \<Rightarrow> bool \<Rightarrow> string" where
  "example_to_string v t force_upper_case =
     (case v of
        PInt n \<Rightarrow> str_int n
      | PStr s \<Rightarrow> (if force_upper_case then upper s else s)
      | PBool b \<Rightarrow> (if b then ''True'' else ''False'')
      | _ \<Rightarrow> [])"

fun split_blanks :: "string \<Rightarrow> string \<Rightarrow> string list" where
  "split_blanks [] word = (if word = [] then [] else [word])"
| "split_blanks (c # cs) word =
     (if c = CHR '' '' then (if word = [] then split_blanks cs [] else word # split_blanks cs [])
      else split_blanks cs (word @ [c]))"

definition example_load_keyword ::
  "MFDataStructure \<Rightarrow> string list \<Rightarrow> nat \<Rightarrow> error + nat \<times> nat option" where
  "example_load_keyword s arr_line i =
     (if i < length arr_line \<and> lower (arr_line ! i) = lower (struct_name s)
      then Inr (i + 1, None)
      else Inl (MFFileParseException ''keyword not found''))"

definition example_env :: "py_version \<Rightarrow> collaborators" where
  "example_env v =
     \<lparr>indent_string = ''  '', convert_data = example_convert_data,
      to_string = example_to_string, split_data_line = (\<lambda>line. split_blanks line []),
      load_keyword = example_load_keyword,
      read_pre_data_comments = (\<lambda>first_line file_handle. Inr first_line),
      python = v\<rparr>"

text \<open>An integer field \<^verbatim>\<open>maxiter\<close>, a keyword field \<^verbatim>\<open>save\<close> and a string field.\<close>

definition integer_struct :: MFDataStructure where
  "integer_struct =
     \<lparr>struct_name = ''maxiter'', struct_type = ''integer'',
      data_item_structures =
        [\<lparr>item_name = ''maxiter'', item_type = ''integer'', item_optional = False,
          item_ucase = False\<rparr>],
      get_datum_type = ''integer'', get_datatype = scalar,
      get_data_item_types = [''integer'']\<rparr>"

definition keyword_struct :: MFDataStructure where
  "keyword_struct =
     \<lparr>struct_name = ''save'', struct_type = ''keyword'',
      data_item_structures =
        [\<lparr>item_name = ''save'', item_type = ''keyword'', item_optional = False,
          item_ucase = False\<rparr>],
      get_datum_type = ''keyword'', get_datatype = scalar_keyword,
      get_data_item_types = [''keyword'']\<rparr>"

definition string_struct :: MFDataStructure where
  "string_struct =
     \<lparr>struct_name = ''units'', struct_type = ''string'',
      data_item_structures =
        [\<lparr>item_name = ''units'', item_type = ''string'', item_optional = False,
          item_ucase = True\<rparr>],
      get_datum_type = ''string'', get_datatype = scalar,
      get_data_item_types = [''string'']\<rparr>"

text \<open>The cell a constructor call without data leaves, holding a given value.\<close>

definition cell_with :: "MFDataStructure \<Rightarrow> string \<Rightarrow> pyval \<Rightarrow> MFData" where
  "cell_with s t v =
     \<lparr>struct = s, data_name = struct_name s, data_type = t, current_key = None,
      data_storage = Single \<lparr>stored = v\<rparr>, heap = [], data_line_comments = [],
      repeating = False\<rparr>"

text \<open>
  A transient sequence with the keys 0 and 1, each with a cell of its own, holding 3 and
  7; and the same with both keys registered at one address, a state in which they share
  a cell.
\<close>

definition example_transient :: MFData where
  "example_transient =
     \<lparr>struct = integer_struct, data_name = ''maxiter'', data_type = ''integer'',
      current_key = Some 1, data_storage = Keyed [(0, 0), (1, 1)],
      heap = [\<lparr>stored = PInt 3\<rparr>, \<lparr>stored = PInt 7\<rparr>], data_line_comments = [],
      repeating = True\<rparr>"

definition shared_transient :: MFData where
  "shared_transient = example_transient\<lparr>data_storage := Keyed [(0, 0), (1, 0)]\<rparr>"

section \<open>The unwrapping loop of set_data\<close>

declare set_data_loop.simps [simp del]

text \<open>
  The loop computes what the three recursive descriptions say: it ends with the first
  scalar, or with \<^verbatim>\<open>IndexError\<close> at an empty wrapper, and has recorded the comments
  of the layers it went through. Only the comments of the object change.
\<close>

lemma set_data_loop_result:
  "set_data_loop d st =
     (if nonempty_layers d then Inr (first_scalar d) else Inl IndexError,
      st\<lparr>data_line_comments := data_line_comments st @ trailing_comments d\<rparr>)"
proof (induction d st rule: set_data_loop.induct)
  case (1 data st)
  show ?case
  proof (cases "is_wrapper data")
    case False
    then show ?thesis
      by (cases data) (simp_all add: set_data_loop.simps)
  next
    case True
    show ?thesis
    proof (cases "items data")
      case Nil
      with True show ?thesis
        by (cases data) (simp_all add: set_data_loop.simps getitem0_def)
    next
      case (Cons x xs)
      with True have g: "getitem0 data = Inr x"
        by (simp add: getitem0_def)
      from True Cons have shape: "nonempty_layers data = nonempty_layers x"
        "first_scalar data = first_scalar x"
        "trailing_comments data = layer_comment x @ trailing_comments x"
        by (cases data; simp)+
      show ?thesis
        using "1.IH" [OF True g] True g shape
        by (simp add: set_data_loop.simps [of data] layer_comment_def slice_from1_def
            add_data_line_comment_def)
    qed
  qed
qed

lemma first_scalar_not_wrapper: "nonempty_layers d \<Longrightarrow> \<not> is_wrapper (first_scalar d)"
  by (induction d rule: nonempty_layers.induct) simp_all

lemma get_storage_obj_comments [simp]:
  "get_storage_obj (st\<lparr>data_line_comments := cs\<rparr>) = get_storage_obj st"
  by (simp add: get_storage_obj_def split: storage_ref.splits option.splits)

lemma get_put_storage_obj:
  "get_storage_obj st = Some sto \<Longrightarrow> get_storage_obj (put_storage_obj st sto') = Some sto'"
  by (auto simp: get_storage_obj_def put_storage_obj_def deref_def
      split: storage_ref.splits option.splits if_splits)

lemma put_storage_obj_comments [simp]:
  "data_line_comments (put_storage_obj st sto) = data_line_comments st"
  by (simp add: put_storage_obj_def split: storage_ref.splits option.splits)

text \<open>
  Claim C2, as amended. For a raw value whose wrappers are all non-empty, in a cell that
  has a storage object and a first sub-item, and whose first scalar the storage engine
  converts to \<open>v\<close>: \<^verbatim>\<open>set_data\<close> succeeds, the first scalar is no list, tuple or
  array, the cell then holds \<open>v\<close>, and the comments recorded are, outermost first, the
  elements from index 1 on of every element taken out of a wrapper that is itself a list
  or a tuple of more than one element. An array layer is unwrapped like a list but
  records nothing, and so does the outermost wrapper.
\<close>

theorem set_data_unwraps:
  assumes layers: "nonempty_layers d"
    and sto: "get_storage_obj st = Some sto"
    and item: "data_item (struct st) 0 = Inr di"
    and conv: "convert_data env (first_scalar d) (data_type st) di = Inr v"
    and res: "MFScalar_set_data env st d = (r, st')"
  shows "r = Inr () \<and> \<not> is_wrapper (first_scalar d)
         \<and> MFScalar_get_data st' = Inr v
         \<and> data_line_comments st' = data_line_comments st @ trailing_comments d"
  using assms first_scalar_not_wrapper [OF layers]
  by (auto simp: MFScalar_set_data_def set_data_loop_result MFScalar_get_data_def
      get_put_storage_obj DataStorage_set_data_def DataStorage_get_data_def)

text \<open>
  The example of the claim: \<^verbatim>\<open>set_data([[5, "note"]])\<close> on an empty integer cell stores
  5 and records the comment \<^verbatim>\<open>["note"]\<close>.
\<close>

theorem set_data_unwraps_witness:
  "nonempty_layers (PList [PList [PInt 5, PStr ''note'']])
   \<and> MFScalar_set_data (example_env Py3) (cell_with integer_struct ''integer'' PNone)
        (PList [PList [PInt 5, PStr ''note'']])
      = (Inr (), (cell_with integer_struct ''integer'' (PInt 5))
                   \<lparr>data_line_comments := [[PStr ''note'']]\<rparr>)
   \<and> MFScalar_get_data ((cell_with integer_struct ''integer'' (PInt 5))
                   \<lparr>data_line_comments := [[PStr ''note'']]\<rparr>) = Inr (PInt 5)
   \<and> trailing_comments (PList [PList [PInt 5, PStr ''note'']]) = [[PStr ''note'']]"
proof -
  let ?d = "PList [PList [PInt 5, PStr ''note'']]"
  let ?st = "cell_with integer_struct ''integer'' PNone"
  let ?st' = "(cell_with integer_struct ''integer'' (PInt 5))
                \<lparr>data_line_comments := [[PStr ''note'']]\<rparr>"
  let ?di = "\<lparr>item_name = ''maxiter'', item_type = ''integer'', item_optional = False,
              item_ucase = False\<rparr>"
  have l: "nonempty_layers ?d"
    by simp
  have s: "get_storage_obj ?st = Some \<lparr>stored = PNone\<rparr>"
    by (simp add: get_storage_obj_def cell_with_def)
  have i: "data_item (struct ?st) 0 = Inr ?di"
    by (simp add: data_item_def cell_with_def integer_struct_def)
  have c: "convert_data (example_env Py3) (first_scalar ?d) (data_type ?st) ?di = Inr (PInt 5)"
    by (simp add: example_env_def example_convert_data_def cell_with_def)
  have r: "MFScalar_set_data (example_env Py3) ?st ?d = (Inr (), ?st')"
    by (simp add: MFScalar_set_data_def set_data_loop_result get_storage_obj_def cell_with_def
        data_item_def integer_struct_def example_env_def example_convert_data_def
        put_storage_obj_def DataStorage_set_data_def layer_comment_def)
  from set_data_unwraps [OF l s i c r] l r show ?thesis
    by (simp add: layer_comment_def)
qed

text \<open>
  Claim C2 as stated fails where a layer is an array: in
  \<^verbatim>\<open>set_data([np.array([5, 6]), "note"])\<close> the element taken out of the list is an array
  of two elements, a sequence the loop goes on to unwrap, yet no comment is recorded:
  neither 6 nor \<^verbatim>\<open>"note"\<close>. The value 5 is stored.
\<close>

theorem set_data_array_layer_counterexample:
  "MFScalar_set_data (example_env Py3) (cell_with integer_struct ''integer'' PNone)
        (PList [PArray [PInt 5, PInt 6], PStr ''note''])
      = (Inr (), cell_with integer_struct ''integer'' (PInt 5))
   \<and> data_line_comments (cell_with integer_struct ''integer'' (PInt 5)) = []
   \<and> is_wrapper (PArray [PInt 5, PInt 6]) \<and> 1 < length (items (PArray [PInt 5, PInt 6]))"
  by (simp add: MFScalar_set_data_def set_data_loop_result get_storage_obj_def cell_with_def
        data_item_def integer_struct_def example_env_def example_convert_data_def
        put_storage_obj_def DataStorage_set_data_def layer_comment_def)

text \<open>
  Claim C10. The loop of \<^verbatim>\<open>set_data\<close> is defined by recursion on the wrapper depth,
  which each iteration strictly reduces: taking the first element of a wrapper gives a
  value of smaller depth. When every wrapper is non-empty the loop ends with the first
  scalar, which is no wrapper. When some wrapper on the way is empty, \<^verbatim>\<open>set_data\<close>
  fails with the \<^verbatim>\<open>IndexError\<close> of \<^verbatim>\<open>data[0]\<close> and stores nothing: the storage of
  the object is as before.
\<close>

theorem set_data_loop_terminates:
  "(is_wrapper d \<and> getitem0 d = Inr d' \<longrightarrow> wrapper_depth d' < wrapper_depth d)
   \<and> (nonempty_layers d \<longrightarrow>
        fst (set_data_loop d st) = Inr (first_scalar d) \<and> \<not> is_wrapper (first_scalar d))
   \<and> (\<not> nonempty_layers d \<longrightarrow>
        fst (MFScalar_set_data env st d) = Inl IndexError
        \<and> heap (snd (MFScalar_set_data env st d)) = heap st
        \<and> data_storage (snd (MFScalar_set_data env st d)) = data_storage st)"
proof (intro conjI impI)
  assume "is_wrapper d \<and> getitem0 d = Inr d'"
  then show "wrapper_depth d' < wrapper_depth d"
    by (cases d) (auto simp: getitem0_def split: list.splits)
next
  assume "nonempty_layers d"
  then show "fst (set_data_loop d st) = Inr (first_scalar d)"
    by (simp add: set_data_loop_result)
next
  assume "nonempty_layers d"
  then show "\<not> is_wrapper (first_scalar d)"
    by (rule first_scalar_not_wrapper)
next
  assume n: "\<not> nonempty_layers d"
  then show "fst (MFScalar_set_data env st d) = Inl IndexError"
    by (simp add: MFScalar_set_data_def set_data_loop_result)
  from n show "heap (snd (MFScalar_set_data env st d)) = heap st"
    by (simp add: MFScalar_set_data_def set_data_loop_result)
  from n show "data_storage (snd (MFScalar_set_data env st d)) = data_storage st"
    by (simp add: MFScalar_set_data_def set_data_loop_result)
qed

text \<open>
  On \<^verbatim>\<open>[(3,)]\<close> the depth falls from 2 to 1 and the loop ends with 3; on
  \<^verbatim>\<open>[np.array([]), 3]\<close> \<^verbatim>\<open>set_data\<close> raises \<^verbatim>\<open>IndexError\<close> and the cell keeps its 8.
\<close>

theorem set_data_loop_terminates_witness:
  "is_wrapper (PList [PTuple [PInt 3]])
   \<and> getitem0 (PList [PTuple [PInt 3]]) = Inr (PTuple [PInt 3])
   \<and> wrapper_depth (PTuple [PInt 3]) < wrapper_depth (PList [PTuple [PInt 3]])
   \<and> nonempty_layers (PList [PTuple [PInt 3]])
   \<and> fst (set_data_loop (PList [PTuple [PInt 3]]) (cell_with integer_struct ''integer'' PNone))
       = Inr (PInt 3)
   \<and> \<not> nonempty_layers (PList [PArray [], PInt 3])
   \<and> fst (MFScalar_set_data (example_env Py3) (cell_with integer_struct ''integer'' (PInt 8))
            (PList [PArray [], PInt 3])) = Inl IndexError
   \<and> data_storage (snd (MFScalar_set_data (example_env Py3)
            (cell_with integer_struct ''integer'' (PInt 8)) (PList [PArray [], PInt 3])))
       = Single \<lparr>stored = PInt 8\<rparr>"
  using set_data_loop_terminates [of "PList [PTuple [PInt 3]]" "PTuple [PInt 3]"
      "cell_with integer_struct ''integer'' PNone" "example_env Py3"]
    set_data_loop_terminates [of "PList [PArray [], PInt 3]" "PArray []"
      "cell_with integer_struct ''integer'' (PInt 8)" "example_env Py3"]
  by (simp add: getitem0_def cell_with_def)

section \<open>has_data after construction, set_data and load\<close>

lemma has_data_after_put:
  "get_storage_obj st = Some sto \<Longrightarrow> v \<noteq> PNone \<Longrightarrow>
   MFScalar_has_data (put_storage_obj st (DataStorage_set_data sto v)) = Inr True"
  by (simp add: MFScalar_has_data_def get_put_storage_obj DataStorage_has_data_def
      DataStorage_set_data_def)

lemma has_data_comments [simp]:
  "MFScalar_has_data (st\<lparr>data_line_comments := cs\<rparr>) = MFScalar_has_data st"
  by (simp add: MFScalar_has_data_def)

lemma set_data_has_data:
  assumes conv: "\<And>raw t di v. convert_data env raw t di = Inr v \<Longrightarrow> v \<noteq> PNone"
    and ok: "MFScalar_set_data env st d = (Inr u, st')"
  shows "MFScalar_has_data st' = Inr True"
proof -
  let ?st1 = "st\<lparr>data_line_comments := data_line_comments st @ trailing_comments d\<rparr>"
  from ok obtain sto di v where sto: "get_storage_obj ?st1 = Some sto"
    and cv: "convert_data env (first_scalar d) (data_type ?st1) di = Inr v"
    and st': "st' = put_storage_obj ?st1 (DataStorage_set_data sto v)"
    by (auto simp: MFScalar_set_data_def set_data_loop_result
        split: if_splits option.splits sum.splits)
  from conv [OF cv] sto show ?thesis
    unfolding st' by (rule has_data_after_put [rotated])
qed

lemma load_store_has_data:
  assumes conv: "\<And>raw t di v. convert_data env raw t di = Inr v \<Longrightarrow> v \<noteq> PNone"
    and ok: "load_store env st line arr_line index_num = (Inr i, st')"
  shows "MFScalar_has_data st' = Inr True"
  using ok
  by (auto simp: load_store_def has_data_after_put dest: conv
      split: if_splits option.splits sum.splits)

lemma load_has_data:
  assumes conv: "\<And>raw t di v. convert_data env raw t di = Inr v \<Longrightarrow> v \<noteq> PNone"
    and ok: "MFScalar_load env st first_line file_handle = (Inr r, st')"
  shows "MFScalar_has_data st' = Inr True"
  using ok load_store_has_data [OF conv]
  by (auto simp: MFScalar_load_def Let_def add_data_line_comment_def
      split: if_splits option.splits sum.splits prod.splits)

lemma example_convert_value:
  "convert_data (example_env v) raw t di = Inr x \<Longrightarrow> x \<noteq> PNone"
  by (auto simp: example_env_def example_convert_data_def
      split: if_splits pyval.splits option.splits)

text \<open>
  Claim C3. With a storage engine whose conversion yields a value (never \<^verbatim>\<open>None\<close>):
  a scalar cell constructed without data answers \<^verbatim>\<open>has_data()\<close> with false; after
  any \<^verbatim>\<open>set_data\<close> that returns, and after any \<^verbatim>\<open>load\<close> that returns, it answers
  true. (A constructor call that is given data runs \<^verbatim>\<open>set_data\<close> on the new cell.)
\<close>

theorem has_data_after_construction_and_set:
  assumes conv: "\<And>raw t di v. convert_data env raw t di = Inr v \<Longrightarrow> v \<noteq> PNone"
  shows "(new_MFScalar env s PNone = Inr st0 \<longrightarrow> MFScalar_has_data st0 = Inr False)
       \<and> (MFScalar_set_data env st d = (Inr (), st') \<longrightarrow> MFScalar_has_data st' = Inr True)
       \<and> (MFScalar_load env st first_line file_handle = (Inr r, st'') \<longrightarrow>
            MFScalar_has_data st'' = Inr True)"
proof (intro conjI impI)
  assume "new_MFScalar env s PNone = Inr st0"
  then show "MFScalar_has_data st0 = Inr False"
    by (auto simp: new_MFScalar_def MFScalar_init_def MFScalar_has_data_def get_storage_obj_def
        MFScalar_new_storage_def new_DataStorage_def DataStorage_has_data_def
        split: sum.splits)
next
  assume "MFScalar_set_data env st d = (Inr (), st')"
  with conv show "MFScalar_has_data st' = Inr True"
    by (rule set_data_has_data)
next
  assume "MFScalar_load env st first_line file_handle = (Inr r, st'')"
  with conv show "MFScalar_has_data st'' = Inr True"
    by (rule load_has_data)
qed

text \<open>
  An integer cell: empty after construction, holding 0 (a value, not absence) after
  \<^verbatim>\<open>set_data(0)\<close>, holding 12 after loading the line \<^verbatim>\<open>maxiter 12\<close>.
\<close>

theorem has_data_after_construction_and_set_witness:
  "new_MFScalar (example_env Py3) integer_struct PNone
     = Inr (cell_with integer_struct ''integer'' PNone)
   \<and> MFScalar_has_data (cell_with integer_struct ''integer'' PNone) = Inr False
   \<and> MFScalar_set_data (example_env Py3) (cell_with integer_struct ''integer'' PNone) (PInt 0)
     = (Inr (), cell_with integer_struct ''integer'' (PInt 0))
   \<and> MFScalar_has_data (cell_with integer_struct ''integer'' (PInt 0)) = Inr True
   \<and> MFScalar_load (example_env Py3) (cell_with integer_struct ''integer'' PNone)
        ''maxiter 12'' []
     = (Inr (False, None), cell_with integer_struct ''integer'' (PInt 12))
   \<and> MFScalar_has_data (cell_with integer_struct ''integer'' (PInt 12)) = Inr True"
proof -
  let ?env = "example_env Py3"
  let ?c = "cell_with integer_struct ''integer''"
  have conv: "\<And>raw t di v. convert_data ?env raw t di = Inr v \<Longrightarrow> v \<noteq> PNone"
    by (rule example_convert_value)
  have n: "new_MFScalar ?env integer_struct PNone = Inr (?c PNone)"
    by (simp add: new_MFScalar_def MFScalar_init_def data_item_def integer_struct_def
        cell_with_def MFData_init_def MFScalar_new_storage_def new_DataStorage_def)
  have s: "MFScalar_set_data ?env (?c PNone) (PInt 0) = (Inr (), ?c (PInt 0))"
    by (simp add: MFScalar_set_data_def set_data_loop_result get_storage_obj_def cell_with_def
        data_item_def integer_struct_def example_env_def example_convert_data_def
        put_storage_obj_def DataStorage_set_data_def)
  have l: "MFScalar_load ?env (?c PNone) ''maxiter 12'' [] = (Inr (False, None), ?c (PInt 12))"
    by (simp add: MFScalar_load_def load_store_def token_at_def get_storage_obj_def
        cell_with_def data_item_def integer_struct_def example_env_def
        example_convert_data_def example_load_keyword_def put_storage_obj_def
        DataStorage_set_data_def lower_def lower_char_def)
  from has_data_after_construction_and_set [of ?env integer_struct "?c PNone" "?c PNone"
      "PInt 0" "?c (PInt 0)" "''maxiter 12''" "[]" "(False, None)" "?c (PInt 12)", OF conv]
    n s l
  show ?thesis
    by simp
qed

section \<open>add_one\<close>

text \<open>
  Claim C4. In a cell that has a storage object: when the declared datum type is
  \<^verbatim>\<open>int\<close> or \<^verbatim>\<open>integer\<close>, \<^verbatim>\<open>add_one\<close> returns with 1 stored if no value was
  present, and with \<open>n + 1\<close> stored if the integer \<open>n\<close> was; for every other declared
  type it raises the parse exception whose message is the field's name, the words
  "of type", the declared type and "does not support add one operation.", and the object
  is as before.
\<close>

theorem add_one_integer_or_error:
  assumes sto: "get_storage_obj st = Some sto"
  shows "((get_datum_type (struct st) = ''int'' \<or> get_datum_type (struct st) = ''integer'')
            \<and> stored sto = PNone \<longrightarrow>
          fst (MFScalar_add_one st) = Inr ()
          \<and> MFScalar_get_data (snd (MFScalar_add_one st)) = Inr (PInt 1))
       \<and> ((get_datum_type (struct st) = ''int'' \<or> get_datum_type (struct st) = ''integer'')
            \<and> stored sto = PInt n \<longrightarrow>
          fst (MFScalar_add_one st) = Inr ()
          \<and> MFScalar_get_data (snd (MFScalar_add_one st)) = Inr (PInt (n + 1)))
       \<and> (get_datum_type (struct st) \<noteq> ''int'' \<and> get_datum_type (struct st) \<noteq> ''integer'' \<longrightarrow>
          MFScalar_add_one st =
            (Inl (MFFileParseException
                   (data_name st @ '' of type '' @ get_datum_type (struct st)
                    @ '' does not support add one operation.'')), st))"
  using sto
  by (auto simp: MFScalar_add_one_def MFScalar_get_data_def get_put_storage_obj
      DataStorage_get_data_def DataStorage_set_data_def)

text \<open>
  An empty integer cell goes to 1, one holding 41 to 42; the string field \<^verbatim>\<open>units\<close>
  raises and keeps its value.
\<close>

theorem add_one_integer_or_error_witness:
  "get_storage_obj (cell_with integer_struct ''integer'' PNone) = Some \<lparr>stored = PNone\<rparr>
   \<and> MFScalar_add_one (cell_with integer_struct ''integer'' PNone)
       = (Inr (), cell_with integer_struct ''integer'' (PInt 1))
   \<and> MFScalar_add_one (cell_with integer_struct ''integer'' (PInt 41))
       = (Inr (), cell_with integer_struct ''integer'' (PInt 42))
   \<and> MFScalar_get_data (cell_with integer_struct ''integer'' (PInt 42)) = Inr (PInt 42)
   \<and> MFScalar_add_one (cell_with string_struct ''string'' (PStr ''feet''))
       = (Inl (MFFileParseException ''units of type string does not support add one operation.''),
          cell_with string_struct ''string'' (PStr ''feet''))"
proof -
  have a: "get_storage_obj (cell_with integer_struct ''integer'' PNone) = Some \<lparr>stored = PNone\<rparr>"
    and b: "get_storage_obj (cell_with integer_struct ''integer'' (PInt 41))
              = Some \<lparr>stored = PInt 41\<rparr>"
    and c: "get_storage_obj (cell_with string_struct ''string'' (PStr ''feet''))
              = Some \<lparr>stored = PStr ''feet''\<rparr>"
    by (simp_all add: get_storage_obj_def cell_with_def)
  have e: "MFScalar_add_one (cell_with integer_struct ''integer'' PNone)
       = (Inr (), cell_with integer_struct ''integer'' (PInt 1))"
    "MFScalar_add_one (cell_with integer_struct ''integer'' (PInt 41))
       = (Inr (), cell_with integer_struct ''integer'' (PInt 42))"
    by (simp_all add: MFScalar_add_one_def get_storage_obj_def cell_with_def integer_struct_def
        put_storage_obj_def DataStorage_get_data_def DataStorage_set_data_def)
  from add_one_integer_or_error [OF a, of 0] add_one_integer_or_error [OF b, of 41]
    add_one_integer_or_error [OF c, of 0] a e
  show ?thesis
    by (simp add: cell_with_def string_struct_def integer_struct_def)
qed

section \<open>get_file_entry\<close>

text \<open>
  Claim C7. In a cell of schema type \<^verbatim>\<open>integer\<close> or \<^verbatim>\<open>int\<close> that holds the integer
  \<open>n\<close>, \<^verbatim>\<open>get_file_entry\<close> with \<^verbatim>\<open>one_based\<close> true renders \<open>n + 1\<close> (after the
  indent, or after the indent, the upper-cased name and the indent, with a newline) and
  returns the object as it was, still holding \<open>n\<close>. Whatever the cell and the
  arguments, \<^verbatim>\<open>get_file_entry\<close> leaves the object as it was.
\<close>

theorem get_file_entry_one_based_frame:
  assumes sto: "get_storage_obj st = Some sto"
    and int: "stored sto = PInt n"
    and ty: "struct_type (struct st) = ''integer'' \<or> struct_type (struct st) = ''int''"
    and item: "data_item (struct st) 0 = Inr di"
  shows "MFScalar_get_file_entry env st values_only True =
           (Inr (if values_only
                 then indent_string env @ to_string env (PInt (n + 1)) (data_type st) (item_ucase di)
                 else indent_string env @ upper (struct_name (struct st)) @ indent_string env
                      @ to_string env (PInt (n + 1)) (data_type st) (item_ucase di) @ newline),
            st)
         \<and> MFScalar_get_data st = Inr (PInt n)
         \<and> snd (MFScalar_get_file_entry env st0 values_only0 one_based0) = st0"
  using assms
  by (auto simp: MFScalar_get_file_entry_def MFScalar_get_data_def DataStorage_get_data_def
      split: option.splits sum.splits)

text \<open>The cell holding 4 renders \<^verbatim>\<open>MAXITER  5\<close> and still holds 4.\<close>

theorem get_file_entry_one_based_frame_witness:
  "get_storage_obj (cell_with integer_struct ''integer'' (PInt 4)) = Some \<lparr>stored = PInt 4\<rparr>
   \<and> MFScalar_get_file_entry (example_env Py3) (cell_with integer_struct ''integer'' (PInt 4))
        False True
      = (Inr (''  MAXITER  5'' @ newline), cell_with integer_struct ''integer'' (PInt 4))
   \<and> MFScalar_get_data (cell_with integer_struct ''integer'' (PInt 4)) = Inr (PInt 4)"
proof -
  let ?st = "cell_with integer_struct ''integer'' (PInt 4)"
  let ?di = "\<lparr>item_name = ''maxiter'', item_type = ''integer'', item_optional = False,
              item_ucase = False\<rparr>"
  have s: "get_storage_obj ?st = Some \<lparr>stored = PInt 4\<rparr>"
    by (simp add: get_storage_obj_def cell_with_def)
  have i: "stored \<lparr>stored = PInt 4\<rparr> = PInt 4"
    by simp
  have t: "struct_type (struct ?st) = ''integer'' \<or> struct_type (struct ?st) = ''int''"
    by (simp add: cell_with_def integer_struct_def)
  have d: "data_item (struct ?st) 0 = Inr ?di"
    by (simp add: data_item_def cell_with_def integer_struct_def)
  have five: "str_int 5 = ''5''"
    by code_simp
  have u: "upper ''maxiter'' = ''MAXITER''"
    by code_simp
  from get_file_entry_one_based_frame [OF s i t d, of "example_env Py3" False] s five u
  show ?thesis
    by (simp add: example_env_def example_to_string_def cell_with_def integer_struct_def)
qed

text \<open>
  Upper-casing neither adds nor removes a newline, joining newline-free texts with a
  newline-free separator gives a newline-free text, and the fields of a record line are
  newline-free when the names and the formatted value are.
\<close>

lemma upper_char_newline: "upper_char c = CHR 0x0A \<longleftrightarrow> c = CHR 0x0A"
proof (cases "97 \<le> (of_char c :: nat) \<and> (of_char c :: nat) \<le> 122")
  case True
  then have "(of_char c :: nat) - 32 < 256"
    by arith
  then have "(of_char (char_of (of_char c - 32 :: nat) :: char) :: nat) = of_char c - 32"
    by simp
  with True have "(of_char (char_of (of_char c - 32 :: nat) :: char) :: nat) \<noteq> of_char (CHR 0x0A)"
    by (simp; arith)
  then have "(char_of (of_char c - 32 :: nat) :: char) \<noteq> CHR 0x0A"
    by (metis)
  moreover from True have "c \<noteq> CHR 0x0A"
    by auto
  ultimately show ?thesis
    using True by (simp add: upper_char_def Let_def)
next
  case False
  then show ?thesis
    by (auto simp: upper_char_def Let_def)
qed

lemma nl_free_upper: "nl_free (upper s) = nl_free s"
proof -
  have "CHR 0x0A \<in> upper_char ` set s \<longleftrightarrow> CHR 0x0A \<in> set s"
  proof
    assume "CHR 0x0A \<in> upper_char ` set s"
    then obtain c where "c \<in> set s" "upper_char c = CHR 0x0A"
      by auto
    then show "CHR 0x0A \<in> set s"
      by (simp add: upper_char_newline)
  next
    assume "CHR 0x0A \<in> set s"
    moreover have "upper_char (CHR 0x0A) = CHR 0x0A"
      by (simp add: upper_char_newline)
    ultimately show "CHR 0x0A \<in> upper_char ` set s"
      by (metis image_eqI)
  qed
  then show ?thesis
    by (simp add: nl_free_def upper_def)
qed

lemma nl_free_append [simp]: "nl_free (a @ b) = (nl_free a \<and> nl_free b)"
  by (auto simp: nl_free_def)

lemma nl_free_join: "nl_free sep \<Longrightarrow> list_all nl_free xs \<Longrightarrow> nl_free (join sep xs)"
  by (induction sep xs rule: join.induct) (simp_all add: nl_free_def)

lemma record_text_line_nl_free:
  assumes "list_all (\<lambda>di. nl_free (item_name di)) dis"
    and "nl_free (to_string env data dtype True)" "nl_free (to_string env data dtype False)"
    and "list_all nl_free acc"
    and "record_text_line env dtype data dis acc = Inr text_line"
  shows "list_all nl_free text_line"
  using assms
proof (induction dis arbitrary: acc)
  case Nil
  then show ?case by simp
next
  case (Cons di dis)
  have ts: "nl_free (to_string env data dtype (item_ucase di))"
    using Cons.prems(2,3) by (cases "item_ucase di") simp_all
  show ?case
  proof (cases "lower (item_type di) = ''keyword'' \<and> item_optional di = False")
    case True
    with Cons.prems have "record_text_line env dtype data dis (acc @ [upper (item_name di)])
        = Inr text_line" "list_all nl_free (acc @ [upper (item_name di)])"
      by (simp_all add: nl_free_upper)
    with Cons.IH [of "acc @ [upper (item_name di)]"] Cons.prems show ?thesis
      by simp
  next
    case False
    with Cons.prems(5) obtain n where n: "py_len data = Inr n"
      and r: "record_text_line env dtype data dis
          (if n > 0 then acc @ [to_string env data dtype (item_ucase di)] else acc) = Inr text_line"
      by (cases "py_len data") auto
    have "list_all nl_free
        (if n > 0 then acc @ [to_string env data dtype (item_ucase di)] else acc)"
      using Cons.prems(4) ts by simp
    with Cons.IH [OF _ Cons.prems(2,3) this r] Cons.prems(1) show ?thesis
      by simp
  qed
qed

lemma single_newline:
  "t = body @ newline \<Longrightarrow> nl_free body \<Longrightarrow> last t = CHR 0x0A \<and> nl_free (butlast t)"
  by (simp add: newline_def)

text \<open>
  Claim C8, as amended. Let \<^verbatim>\<open>get_file_entry\<close> return a non-empty entry for a cell with
  a storage object. Then the object is as before, the cell holds a value, and the entry
  is exactly: for a \<^verbatim>\<open>keyword\<close> field, the indent, the upper-cased name and a newline;
  for a \<^verbatim>\<open>record\<close> field, the indent, the fields of the record line joined by the
  indent, and a newline; for any other field, with \<open>di\<close> the first sub-item and the
  value shown being the stored value (or, with \<^verbatim>\<open>one_based\<close>, the stored value plus
  one), the indent and the value formatted with \<open>di\<close>'s upper-case flag when
  \<^verbatim>\<open>values_only\<close>, with no newline added, and otherwise the indent, the upper-cased
  name, the indent, that formatted value and a newline. When the indent, the names and
  the formatted values hold no newline, every entry but the \<^verbatim>\<open>values_only\<close> one of
  such an other field ends with a single newline: its last character is a newline and
  no other character of it is.
\<close>

theorem get_file_entry_newline:
  assumes res: "MFScalar_get_file_entry env st values_only one_based = (Inr t, st')"
    and nonempty: "t \<noteq> []"
    and sto: "get_storage_obj st = Some sto"
  shows "st' = st \<and> stored sto \<noteq> PNone
       \<and> (struct_type (struct st) = ''keyword'' \<longrightarrow>
            t = indent_string env @ upper (struct_name (struct st)) @ newline)
       \<and> (struct_type (struct st) = ''record''
            \<and> record_text_line env (data_type st) (stored sto)
                 (data_item_structures (struct st)) [] = Inr text_line \<longrightarrow>
            t = indent_string env @ join (indent_string env) text_line @ newline)
       \<and> (struct_type (struct st) \<noteq> ''keyword'' \<and> struct_type (struct st) \<noteq> ''record''
            \<and> data_item (struct st) 0 = Inr di \<and> \<not> one_based \<longrightarrow>
            t = (if values_only
                 then indent_string env
                      @ to_string env (stored sto) (data_type st) (item_ucase di)
                 else indent_string env @ upper (struct_name (struct st)) @ indent_string env
                      @ to_string env (stored sto) (data_type st) (item_ucase di) @ newline))
       \<and> (struct_type (struct st) \<noteq> ''keyword'' \<and> struct_type (struct st) \<noteq> ''record''
            \<and> data_item (struct st) 0 = Inr di \<and> one_based
            \<and> py_add (stored sto) 1 = Inr d \<longrightarrow>
            t = (if values_only
                 then indent_string env @ to_string env d (data_type st) (item_ucase di)
                 else indent_string env @ upper (struct_name (struct st)) @ indent_string env
                      @ to_string env d (data_type st) (item_ucase di) @ newline))
       \<and> ((struct_type (struct st) = ''keyword'' \<or> struct_type (struct st) = ''record''
             \<or> \<not> values_only)
            \<and> nl_free (indent_string env) \<and> nl_free (struct_name (struct st))
            \<and> list_all (\<lambda>di. nl_free (item_name di)) (data_item_structures (struct st))
            \<and> nl_free (to_string env (stored sto) (data_type st) True)
            \<and> nl_free (to_string env (stored sto) (data_type st) False)
            \<and> (case py_add (stored sto) 1 of
                  Inl e \<Rightarrow> True
                | Inr d1 \<Rightarrow> nl_free (to_string env d1 (data_type st) True)
                            \<and> nl_free (to_string env d1 (data_type st) False)) \<longrightarrow>
            last t = CHR 0x0A \<and> nl_free (butlast t))"
proof -
  from res sto have st': "st' = st"
    by (auto simp: MFScalar_get_file_entry_def split: sum.splits if_splits)
  from res nonempty sto have data: "stored sto \<noteq> PNone"
    by (auto simp: MFScalar_get_file_entry_def DataStorage_get_data_def split: if_splits)
  note defs = MFScalar_get_file_entry_def DataStorage_get_data_def
  have kw: "t = indent_string env @ upper (struct_name (struct st)) @ newline"
    if "struct_type (struct st) = ''keyword''"
    using res sto data that by (auto simp: defs)
  have rc: "t = indent_string env @ join (indent_string env) tl @ newline"
    if "struct_type (struct st) = ''record''"
      "record_text_line env (data_type st) (stored sto) (data_item_structures (struct st)) []
         = Inr tl" for tl
    using res sto data that by (auto simp: defs)
  have rc_ex: "\<exists>tl. record_text_line env (data_type st) (stored sto)
         (data_item_structures (struct st)) [] = Inr tl"
    if "struct_type (struct st) = ''record''"
    using res sto data that
    by (cases "record_text_line env (data_type st) (stored sto)
         (data_item_structures (struct st)) []") (simp_all add: defs)
  have sc0: "t = (if values_only
                 then indent_string env
                      @ to_string env (stored sto) (data_type st) (item_ucase di)
                 else indent_string env @ upper (struct_name (struct st)) @ indent_string env
                      @ to_string env (stored sto) (data_type st) (item_ucase di) @ newline)"
    if "struct_type (struct st) \<noteq> ''keyword''" "struct_type (struct st) \<noteq> ''record''"
      "data_item (struct st) 0 = Inr di" "\<not> one_based" for di :: MFDataItemStructure
    using res sto data that by (auto simp: defs split: if_splits)
  have sc1: "t = (if values_only
                 then indent_string env @ to_string env d (data_type st) (item_ucase di)
                 else indent_string env @ upper (struct_name (struct st)) @ indent_string env
                      @ to_string env d (data_type st) (item_ucase di) @ newline)"
    if "struct_type (struct st) \<noteq> ''keyword''" "struct_type (struct st) \<noteq> ''record''"
      "data_item (struct st) 0 = Inr di" "one_based" "py_add (stored sto) 1 = Inr d"
    for di :: MFDataItemStructure and d
    using res sto data that by (auto simp: defs split: if_splits)
  have sc_ex: "\<exists>di :: MFDataItemStructure. data_item (struct st) 0 = Inr di
         \<and> (one_based \<longrightarrow> (\<exists>d. py_add (stored sto) 1 = Inr d))"
    if "struct_type (struct st) \<noteq> ''keyword''" "struct_type (struct st) \<noteq> ''record''"
    using res sto data that
    by (cases "data_item (struct st) 0"; cases "py_add (stored sto) 1")
      (auto simp: defs split: if_splits)
  have single: "last t = CHR 0x0A \<and> nl_free (butlast t)"
    if which: "struct_type (struct st) = ''keyword'' \<or> struct_type (struct st) = ''record''
             \<or> \<not> values_only"
      and ind: "nl_free (indent_string env)" and nm: "nl_free (struct_name (struct st))"
      and its: "list_all (\<lambda>di. nl_free (item_name di)) (data_item_structures (struct st))"
      and ts: "nl_free (to_string env (stored sto) (data_type st) True)"
        "nl_free (to_string env (stored sto) (data_type st) False)"
      and ts1: "case py_add (stored sto) 1 of
                  Inl e \<Rightarrow> True
                | Inr d1 \<Rightarrow> nl_free (to_string env d1 (data_type st) True)
                            \<and> nl_free (to_string env d1 (data_type st) False)"
  proof (cases "struct_type (struct st) = ''keyword''")
    case True
    from kw [OF True] have "t = (indent_string env @ upper (struct_name (struct st))) @ newline"
      by simp
    moreover have "nl_free (indent_string env @ upper (struct_name (struct st)))"
      using ind nm by (simp add: nl_free_upper)
    ultimately show ?thesis
      by (rule single_newline)
  next
    case nk: False
    show ?thesis
    proof (cases "struct_type (struct st) = ''record''")
      case True
      from rc_ex [OF True] obtain tl where tl: "record_text_line env (data_type st) (stored sto)
         (data_item_structures (struct st)) [] = Inr tl"
        by blast
      from record_text_line_nl_free [OF its ts _ tl] have "list_all nl_free tl"
        by simp
      with ind have nf: "nl_free (indent_string env @ join (indent_string env) tl)"
        by (simp add: nl_free_join)
      from rc [OF True tl]
      have "t = (indent_string env @ join (indent_string env) tl) @ newline"
        by simp
      then show ?thesis
        using nf by (rule single_newline)
    next
      case nr: False
      with nk which have vo: "\<not> values_only"
        by simp
      from sc_ex [OF nk nr] obtain di :: MFDataItemStructure
        where di: "data_item (struct st) 0 = Inr di"
          and ob: "one_based \<longrightarrow> (\<exists>d. py_add (stored sto) 1 = Inr d)"
        by blast
      have "\<exists>d. nl_free (to_string env d (data_type st) (item_ucase di))
             \<and> t = (indent_string env @ upper (struct_name (struct st)) @ indent_string env
                      @ to_string env d (data_type st) (item_ucase di)) @ newline"
      proof (cases one_based)
        case False
        from sc0 [OF nk nr di False] vo ts show ?thesis
          by (cases "item_ucase di") auto
      next
        case True
        with ob obtain d where d: "py_add (stored sto) 1 = Inr d"
          by blast
        with ts1 have "nl_free (to_string env d (data_type st) (item_ucase di))"
          by (cases "item_ucase di") simp_all
        with sc1 [OF nk nr di True d] vo show ?thesis
          by auto
      qed
      then obtain d where nd: "nl_free (to_string env d (data_type st) (item_ucase di))"
        and td: "t = (indent_string env @ upper (struct_name (struct st)) @ indent_string env
                      @ to_string env d (data_type st) (item_ucase di)) @ newline"
        by blast
      from nd ind nm
      have "nl_free (indent_string env @ upper (struct_name (struct st)) @ indent_string env
                      @ to_string env d (data_type st) (item_ucase di))"
        by (simp add: nl_free_upper)
      with td show ?thesis
        by (rule single_newline)
    qed
  qed
  from st' data kw rc sc0 sc1 single show ?thesis
    by blast
qed

text \<open>
  Claim C8 as stated fails for \<^verbatim>\<open>values_only\<close>: the integer cell holding 5 renders
  as the indent and \<^verbatim>\<open>5\<close>, a non-empty entry whose last character is not a newline.
\<close>

theorem get_file_entry_values_only_counterexample:
  "MFScalar_get_file_entry (example_env Py3) (cell_with integer_struct ''integer'' (PInt 5))
        True False
      = (Inr ''  5'', cell_with integer_struct ''integer'' (PInt 5))
   \<and> ''  5'' \<noteq> [] \<and> last ''  5'' \<noteq> CHR 0x0A"
proof -
  have five: "str_int 5 = ''5''"
    by code_simp
  then show ?thesis
    by (simp add: MFScalar_get_file_entry_def get_storage_obj_def cell_with_def
        DataStorage_get_data_def integer_struct_def data_item_def example_env_def
        example_to_string_def)
qed

text \<open>
  The integer field holding 5 renders as \<^verbatim>\<open>MAXITER  5\<close> and one newline, with
  \<^verbatim>\<open>one_based\<close> as \<^verbatim>\<open>MAXITER  6\<close> and one newline, with \<^verbatim>\<open>values_only\<close> as the
  indent and \<^verbatim>\<open>5\<close>; the keyword field as \<^verbatim>\<open>SAVE\<close> and one newline even with
  \<^verbatim>\<open>values_only\<close>.
\<close>

theorem get_file_entry_newline_witness:
  "MFScalar_get_file_entry (example_env Py3) (cell_with integer_struct ''integer'' (PInt 5))
        False False
      = (Inr (''  MAXITER  5'' @ newline), cell_with integer_struct ''integer'' (PInt 5))
   \<and> last (''  MAXITER  5'' @ newline) = CHR 0x0A
   \<and> nl_free (butlast (''  MAXITER  5'' @ newline))
   \<and> MFScalar_get_file_entry (example_env Py3) (cell_with integer_struct ''integer'' (PInt 5))
        False True
      = (Inr (''  MAXITER  6'' @ newline), cell_with integer_struct ''integer'' (PInt 5))
   \<and> MFScalar_get_file_entry (example_env Py3) (cell_with integer_struct ''integer'' (PInt 5))
        True False
      = (Inr ''  5'', cell_with integer_struct ''integer'' (PInt 5))
   \<and> MFScalar_get_file_entry (example_env Py3) (cell_with keyword_struct ''keyword'' (PBool True))
        True False
      = (Inr (''  SAVE'' @ newline), cell_with keyword_struct ''keyword'' (PBool True))
   \<and> last (''  SAVE'' @ newline) = CHR 0x0A \<and> nl_free (butlast (''  SAVE'' @ newline))"
proof -
  let ?env = "example_env Py3"
  let ?k = "cell_with keyword_struct ''keyword'' (PBool True)"
  let ?i = "cell_with integer_struct ''integer'' (PInt 5)"
  let ?di = "\<lparr>item_name = ''maxiter'', item_type = ''integer'', item_optional = False,
              item_ucase = False\<rparr>"
  let ?dk = "\<lparr>item_name = ''save'', item_type = ''keyword'', item_optional = False,
              item_ucase = False\<rparr>"
  have n: "str_int 5 = ''5''" "str_int 6 = ''6''"
    by code_simp+
  have u: "upper ''maxiter'' = ''MAXITER''" "upper ''save'' = ''SAVE''"
    by code_simp+
  have si: "get_storage_obj ?i = Some \<lparr>stored = PInt 5\<rparr>"
    and sk: "get_storage_obj ?k = Some \<lparr>stored = PBool True\<rparr>"
    by (simp_all add: get_storage_obj_def cell_with_def)
  have i0: "MFScalar_get_file_entry ?env ?i False False = (Inr (''  MAXITER  5'' @ newline), ?i)"
    using u n by (simp add: MFScalar_get_file_entry_def get_storage_obj_def cell_with_def
        DataStorage_get_data_def integer_struct_def data_item_def example_env_def
        example_to_string_def)
  have i1: "MFScalar_get_file_entry ?env ?i False True = (Inr (''  MAXITER  6'' @ newline), ?i)"
    using u n by (simp add: MFScalar_get_file_entry_def get_storage_obj_def cell_with_def
        DataStorage_get_data_def integer_struct_def data_item_def example_env_def
        example_to_string_def)
  have v: "MFScalar_get_file_entry ?env ?i True False = (Inr ''  5'', ?i)"
    using n by (simp add: MFScalar_get_file_entry_def get_storage_obj_def cell_with_def
        DataStorage_get_data_def integer_struct_def data_item_def example_env_def
        example_to_string_def)
  have k: "MFScalar_get_file_entry ?env ?k True False = (Inr (''  SAVE'' @ newline), ?k)"
    using u by (simp add: MFScalar_get_file_entry_def get_storage_obj_def cell_with_def
        DataStorage_get_data_def keyword_struct_def example_env_def)
  have ne: "''  MAXITER  5'' @ newline \<noteq> []" "''  SAVE'' @ newline \<noteq> []"
    by simp_all
  have two: "str_int 2 = ''2''"
    by code_simp
  note single_i = get_file_entry_newline [OF i0 ne(1) si, THEN conjunct2, THEN conjunct2,
      THEN conjunct2, THEN conjunct2, THEN conjunct2, THEN conjunct2, THEN mp]
  note single_k = get_file_entry_newline [OF k ne(2) sk, THEN conjunct2, THEN conjunct2,
      THEN conjunct2, THEN conjunct2, THEN conjunct2, THEN conjunct2, THEN mp]
  have a: "last (''  MAXITER  5'' @ newline) = CHR 0x0A
           \<and> nl_free (butlast (''  MAXITER  5'' @ newline))"
    by (rule single_i)
      (simp add: n example_env_def example_to_string_def cell_with_def integer_struct_def
        nl_free_def)
  have b: "last (''  SAVE'' @ newline) = CHR 0x0A \<and> nl_free (butlast (''  SAVE'' @ newline))"
    by (rule single_k)
      (simp add: two example_env_def example_to_string_def cell_with_def keyword_struct_def
        nl_free_def)
  from i0 a i1 v k b show ?thesis
    by blast
qed

section \<open>load\<close>

text \<open>
  Claim C5. Take a load whose comment reader and keyword matcher succeed, on a cell that
  has a storage object and a first sub-item and whose schema type is not \<^verbatim>\<open>record\<close>.
  If the schema's datatype is keyword-only, transient or not, the load succeeds and the
  cell holds \<^verbatim>\<open>True\<close>, whatever follows the keyword. Otherwise, if the tokenized
  line has no token at the index after the keyword, the load raises the parse exception
  whose message names the field, the lower-cased label and the line, and the object is
  as before; and if it has one that the storage engine converts to \<open>v\<close>, the load
  succeeds and the cell holds \<open>v\<close>.
\<close>

theorem load_keyword_or_missing_data:
  assumes line: "read_pre_data_comments env first_line file_handle = Inr current_line"
    and kw: "load_keyword env (struct st) (split_data_line env current_line) 0
               = Inr (index_num, aux_var_index)"
    and nr: "struct_type (struct st) \<noteq> ''record''"
    and sto: "get_storage_obj st = Some sto"
    and item: "data_item (struct st) 0 = Inr di"
  shows "(get_datatype (struct st) = scalar_keyword
            \<or> get_datatype (struct st) = scalar_keyword_transient \<longrightarrow>
          fst (MFScalar_load env st first_line file_handle) = Inr (False, None)
          \<and> MFScalar_get_data (snd (MFScalar_load env st first_line file_handle))
              = Inr (PBool True))
       \<and> (get_datatype (struct st) \<noteq> scalar_keyword
            \<and> get_datatype (struct st) \<noteq> scalar_keyword_transient
            \<and> length (split_data_line env current_line) \<le> index_num \<longrightarrow>
          MFScalar_load env st first_line file_handle =
            (Inl (MFFileParseException
                   (''Error reading variable '' @ dquote @ data_name st @ dquote
                    @ ''.  Expected data after label '' @ dquote @ lower (item_name di)
                    @ dquote @ '' not found at line '' @ dquote @ current_line @ dquote
                    @ ''.'')), st))
       \<and> (get_datatype (struct st) \<noteq> scalar_keyword
            \<and> get_datatype (struct st) \<noteq> scalar_keyword_transient
            \<and> index_num < length (split_data_line env current_line)
            \<and> convert_data env (PStr (split_data_line env current_line ! index_num))
                 (data_type st) di = Inr v \<longrightarrow>
          fst (MFScalar_load env st first_line file_handle) = Inr (False, None)
          \<and> MFScalar_get_data (snd (MFScalar_load env st first_line file_handle)) = Inr v)"
proof (intro conjI impI)
  assume k: "get_datatype (struct st) = scalar_keyword
            \<or> get_datatype (struct st) = scalar_keyword_transient"
  let ?st1 = "put_storage_obj st (DataStorage_set_data sto (PBool True))"
  from k nr sto have ls: "load_store env st current_line (split_data_line env current_line)
      index_num = (Inr index_num, ?st1)"
    by (auto simp: load_store_def)
  from line kw ls show "fst (MFScalar_load env st first_line file_handle) = Inr (False, None)"
    by (simp add: MFScalar_load_def Let_def)
  have g: "MFScalar_get_data ?st1 = Inr (PBool True)"
    using sto by (simp add: MFScalar_get_data_def get_put_storage_obj DataStorage_get_data_def
        DataStorage_set_data_def)
  from line kw ls g
  show "MFScalar_get_data (snd (MFScalar_load env st first_line file_handle)) = Inr (PBool True)"
    by (simp add: MFScalar_load_def MFScalar_get_data_def add_data_line_comment_def Let_def)
next
  assume "get_datatype (struct st) \<noteq> scalar_keyword
            \<and> get_datatype (struct st) \<noteq> scalar_keyword_transient
            \<and> length (split_data_line env current_line) \<le> index_num"
  with line kw nr item
  show "MFScalar_load env st first_line file_handle =
            (Inl (MFFileParseException
                   (''Error reading variable '' @ dquote @ data_name st @ dquote
                    @ ''.  Expected data after label '' @ dquote @ lower (item_name di)
                    @ dquote @ '' not found at line '' @ dquote @ current_line @ dquote
                    @ ''.'')), st)"
    by (simp add: MFScalar_load_def load_store_def Let_def)
next
  assume a: "get_datatype (struct st) \<noteq> scalar_keyword
            \<and> get_datatype (struct st) \<noteq> scalar_keyword_transient
            \<and> index_num < length (split_data_line env current_line)
            \<and> convert_data env (PStr (split_data_line env current_line ! index_num))
                 (data_type st) di = Inr v"
  let ?st1 = "put_storage_obj st (DataStorage_set_data sto v)"
  from a nr sto item have ls: "load_store env st current_line (split_data_line env current_line)
      index_num = (Inr (index_num + 1), ?st1)"
    by (auto simp: load_store_def token_at_def)
  from line kw ls show "fst (MFScalar_load env st first_line file_handle) = Inr (False, None)"
    by (simp add: MFScalar_load_def Let_def)
  have g: "MFScalar_get_data ?st1 = Inr v"
    using sto by (simp add: MFScalar_get_data_def get_put_storage_obj DataStorage_get_data_def
        DataStorage_set_data_def)
  from line kw ls g
  show "MFScalar_get_data (snd (MFScalar_load env st first_line file_handle)) = Inr v"
    by (simp add: MFScalar_load_def MFScalar_get_data_def add_data_line_comment_def Let_def)
qed

text \<open>
  The line \<^verbatim>\<open>save\<close> loads a keyword field; the line \<^verbatim>\<open>maxiter\<close> fails for an
  integer field; the line \<^verbatim>\<open>maxiter 12 iterations\<close> stores 12 and keeps the rest as
  a comment.
\<close>

theorem load_keyword_or_missing_data_witness:
  "MFScalar_load (example_env Py3) (cell_with keyword_struct ''keyword'' PNone) ''save'' []
     = (Inr (False, None), cell_with keyword_struct ''keyword'' (PBool True))
   \<and> MFScalar_load (example_env Py3) (cell_with integer_struct ''integer'' PNone) ''maxiter'' []
     = (Inl (MFFileParseException
              (''Error reading variable '' @ dquote @ ''maxiter'' @ dquote
               @ ''.  Expected data after label '' @ dquote @ ''maxiter'' @ dquote
               @ '' not found at line '' @ dquote @ ''maxiter'' @ dquote @ ''.'')),
        cell_with integer_struct ''integer'' PNone)
   \<and> MFScalar_load (example_env Py3) (cell_with integer_struct ''integer'' PNone)
        ''maxiter 12 iterations'' []
     = (Inr (False, None),
        (cell_with integer_struct ''integer'' (PInt 12))
          \<lparr>data_line_comments := [[PStr ''iterations'']]\<rparr>)"
proof -
  let ?env = "example_env Py3"
  let ?k = "cell_with keyword_struct ''keyword'' PNone"
  let ?i = "cell_with integer_struct ''integer'' PNone"
  have lw: "lower ''maxiter'' = ''maxiter''" "lower ''save'' = ''save''"
    by code_simp+
  have sp: "split_data_line ?env ''save'' = [''save'']"
    "split_data_line ?env ''maxiter'' = [''maxiter'']"
    "split_data_line ?env ''maxiter 12 iterations'' = [''maxiter'', ''12'', ''iterations'']"
    by (simp_all add: example_env_def)
  have rd: "\<And>l. read_pre_data_comments ?env l [] = Inr l"
    by (simp add: example_env_def)
  have kk: "load_keyword ?env (struct ?k) (split_data_line ?env ''save'') 0 = Inr (1, None)"
    using lw by (simp add: sp) (simp add: example_env_def example_load_keyword_def cell_with_def
        keyword_struct_def)
  have ki: "load_keyword ?env (struct ?i) (split_data_line ?env ''maxiter'') 0 = Inr (1, None)"
    "load_keyword ?env (struct ?i) (split_data_line ?env ''maxiter 12 iterations'') 0
       = Inr (1, None)"
    using lw by (simp_all add: sp) (simp_all add: example_env_def example_load_keyword_def
        cell_with_def integer_struct_def)
  have nk: "struct_type (struct ?k) \<noteq> ''record''" and ni: "struct_type (struct ?i) \<noteq> ''record''"
    by (simp_all add: cell_with_def keyword_struct_def integer_struct_def)
  have sk: "get_storage_obj ?k = Some \<lparr>stored = PNone\<rparr>"
    and si: "get_storage_obj ?i = Some \<lparr>stored = PNone\<rparr>"
    by (simp_all add: get_storage_obj_def cell_with_def)
  have dk: "data_item (struct ?k) 0 = Inr \<lparr>item_name = ''save'', item_type = ''keyword'',
      item_optional = False, item_ucase = False\<rparr>"
    and di: "data_item (struct ?i) 0 = Inr \<lparr>item_name = ''maxiter'', item_type = ''integer'',
      item_optional = False, item_ucase = False\<rparr>"
    by (simp_all add: data_item_def cell_with_def keyword_struct_def integer_struct_def)
  have e1: "MFScalar_load ?env ?k ''save'' []
     = (Inr (False, None), cell_with keyword_struct ''keyword'' (PBool True))"
    using kk by (simp add: MFScalar_load_def rd sp Let_def)
      (simp add: load_store_def cell_with_def keyword_struct_def get_storage_obj_def
        put_storage_obj_def DataStorage_set_data_def)
  have e3: "MFScalar_load ?env ?i ''maxiter 12 iterations'' []
     = (Inr (False, None),
        (cell_with integer_struct ''integer'' (PInt 12))
          \<lparr>data_line_comments := [[PStr ''iterations'']]\<rparr>)"
    using ki by (simp add: MFScalar_load_def rd sp Let_def)
      (simp add: load_store_def cell_with_def integer_struct_def get_storage_obj_def
        put_storage_obj_def DataStorage_set_data_def token_at_def data_item_def
        example_env_def example_convert_data_def add_data_line_comment_def)
  from load_keyword_or_missing_data [OF rd kk nk sk dk, of PNone]
    load_keyword_or_missing_data [OF rd ki(1) ni si di, of PNone]
    load_keyword_or_missing_data [OF rd ki(2) ni si di, of "PInt 12"]
    e1 e3 lw sp
  show ?thesis
    by (simp add: cell_with_def integer_struct_def keyword_struct_def)
qed

section \<open>The cells of the transient sequence\<close>

text \<open>Item assignment on the dictionary: lookups, keys and addresses afterwards.\<close>

lemma od_get_od_set: "od_get (od_set d K a) k = (if k = K then Some a else od_get d k)"
  by (induction d) (auto simp: od_get_def)

lemma keys_od_set: "set (map fst (od_set d K a)) = insert K (set (map fst d))"
proof (induction d)
  case Nil
  then show ?case by simp
next
  case (Cons p d)
  then show ?case
    by (cases p) (simp add: insert_commute)
qed

lemma addrs_od_set: "set (map snd (od_set d K a)) \<subseteq> insert a (set (map snd d))"
proof (induction d)
  case Nil
  then show ?case by simp
next
  case (Cons p d)
  then show ?case
    by (cases p) auto
qed

lemma distinct_keys_od_set: "distinct (map fst d) \<Longrightarrow> distinct (map fst (od_set d K a))"
proof (induction d)
  case Nil
  then show ?case by simp
next
  case (Cons p d)
  obtain k' v' where p: "p = (k', v')"
    by (cases p)
  from Cons.prems p have "k' \<notin> set (map fst d)"
    by simp
  then have "k' \<noteq> K \<Longrightarrow> k' \<notin> set (map fst (od_set d K a))"
    by (simp only: keys_od_set) simp
  with Cons p show ?case
    by auto
qed

lemma distinct_addrs_od_set:
  "distinct (map snd d) \<Longrightarrow> a \<notin> set (map snd d) \<Longrightarrow> distinct (map snd (od_set d K a))"
proof (induction d)
  case Nil
  then show ?case by simp
next
  case (Cons p d)
  obtain k' v' where p: "p = (k', v')"
    by (cases p)
  from Cons.prems p have "v' \<noteq> a" "v' \<notin> set (map snd d)"
    by auto
  with addrs_od_set [of d K a] have "v' \<notin> set (map snd (od_set d K a))"
    by auto
  with Cons p show ?case
    by auto
qed

lemma od_get_addr: "od_get d k = Some a \<Longrightarrow> a \<in> set (map snd d)"
  by (auto simp: od_get_def dest!: map_of_SomeD intro: rev_image_eqI)

lemma od_get_inj:
  assumes "distinct (map snd d)" "od_get d k = Some a" "od_get d K = Some a"
  shows "k = K"
proof -
  from assms(2,3) have "(k, a) \<in> set d" "(K, a) \<in> set d"
    by (auto simp: od_get_def dest: map_of_SomeD)
  moreover from assms(1) have "inj_on snd (set d)"
    by (simp add: distinct_map)
  ultimately have "(k, a) = (K, a)"
    by (rule inj_onD [rotated 2]) simp
  then show ?thesis
    by simp
qed

lemma cell_of_comments [simp]:
  "cell_of (st\<lparr>data_line_comments := cs\<rparr>) k = cell_of st k"
  by (simp add: cell_of_def split: storage_ref.splits option.splits)

lemma own_cells_comments [simp]:
  "own_cells (st\<lparr>data_line_comments := cs\<rparr>) = own_cells st"
  by (simp add: own_cells_def split: storage_ref.splits)

lemma cell_of_current_key [simp]:
  "cell_of (st\<lparr>current_key := c\<rparr>) k = cell_of st k"
  by (simp add: cell_of_def split: storage_ref.splits option.splits)

lemma own_cells_current_key [simp]:
  "own_cells (st\<lparr>current_key := c\<rparr>) = own_cells st"
  by (simp add: own_cells_def split: storage_ref.splits)

lemma own_cells_put: "own_cells (put_storage_obj st sto) = own_cells st"
proof (cases "data_storage st")
  case (Single s)
  then show ?thesis
    by (simp add: own_cells_def put_storage_obj_def)
next
  case (Keyed d)
  then show ?thesis
    by (cases "current_key st"; cases "od_get d (the (current_key st))")
      (simp_all add: own_cells_def put_storage_obj_def)
qed

lemma cell_of_put:
  assumes own: "own_cells st" and cur: "current_key st = Some K" and ne: "k \<noteq> K"
  shows "cell_of (put_storage_obj st sto) k = cell_of st k"
proof (cases "data_storage st")
  case (Single s)
  then show ?thesis
    by (simp add: cell_of_def put_storage_obj_def)
next
  case (Keyed d)
  show ?thesis
  proof (cases "od_get d K")
    case None
    with Keyed cur show ?thesis
      by (simp add: put_storage_obj_def)
  next
    case (Some aK)
    from own Keyed have dist: "distinct (map snd d)"
      by (simp add: own_cells_def)
    have "deref ((heap st)[aK := sto]) a = deref (heap st) a" if "od_get d k = Some a" for a
    proof -
      from od_get_inj [OF dist that] Some ne have "a \<noteq> aK"
        by auto
      then show ?thesis
        by (simp add: deref_def)
    qed
    with Keyed cur Some show ?thesis
      by (simp add: cell_of_def put_storage_obj_def split: option.splits)
  qed
qed

lemma set_data_cells:
  assumes own: "own_cells st" and cur: "current_key st = Some K"
  shows "own_cells (snd (MFScalar_set_data env st data))
         \<and> current_key (snd (MFScalar_set_data env st data)) = Some K
         \<and> (k \<noteq> K \<longrightarrow> cell_of (snd (MFScalar_set_data env st data)) k = cell_of st k)"
proof -
  let ?st1 = "st\<lparr>data_line_comments := data_line_comments st @ trailing_comments data\<rparr>"
  have own1: "own_cells ?st1" and cur1: "current_key ?st1 = Some K"
    using own cur by simp_all
  have cur_put: "current_key (put_storage_obj ?st1 s) = Some K" for s
    using cur by (simp add: put_storage_obj_def split: storage_ref.splits option.splits)
  show ?thesis
    using own1 cur1 cur_put cell_of_put [OF own1 cur1]
    by (auto simp: MFScalar_set_data_def set_data_loop_result own_cells_put
        split: sum.splits option.splits)
qed

lemma load_cells:
  assumes own: "own_cells st" and cur: "current_key st = Some K"
  shows "own_cells (snd (MFScalar_load env st first_line file_handle))
         \<and> (k \<noteq> K \<longrightarrow> cell_of (snd (MFScalar_load env st first_line file_handle)) k = cell_of st k)"
proof -
  have store: "own_cells (snd (load_store env st line arr i))
         \<and> (k \<noteq> K \<longrightarrow> cell_of (snd (load_store env st line arr i)) k = cell_of st k)"
    for line arr i
    using own cell_of_put [OF own cur]
    by (auto simp: load_store_def own_cells_put split: sum.splits option.splits)
  show ?thesis
  proof (cases "read_pre_data_comments env first_line file_handle")
    case (Inl e)
    with own show ?thesis
      by (simp add: MFScalar_load_def)
  next
    case (Inr line)
    show ?thesis
    proof (cases "load_keyword env (struct st) (split_data_line env line) 0")
      case (Inl e)
      with Inr own show ?thesis
        by (simp add: MFScalar_load_def)
    next
      case kw: (Inr p)
      obtain i aux where p: "p = (i, aux)"
        by (cases p)
      obtain r st1 where ls: "load_store env st line (split_data_line env line) i = (r, st1)"
        by (cases "load_store env st line (split_data_line env line) i")
      from store [of line "split_data_line env line" i] ls
      have "own_cells st1" "k \<noteq> K \<longrightarrow> cell_of st1 k = cell_of st k"
        by simp_all
      with Inr kw p ls show ?thesis
        by (cases r) (simp_all add: MFScalar_load_def add_data_line_comment_def Let_def)
    qed
  qed
qed

lemma set_data_items_cells:
  "own_cells st \<Longrightarrow>
   own_cells (snd (set_data_items env st entries))
   \<and> (k \<notin> set (map fst entries) \<longrightarrow>
        cell_of (snd (set_data_items env st entries)) k = cell_of st k)"
proof (induction entries arbitrary: st)
  case Nil
  then show ?case by simp
next
  case (Cons p entries)
  obtain key item where p: "p = (key, item)"
    by (cases p)
  let ?st0 = "set_data_prep st (Some key)"
  have own0: "own_cells ?st0" and cur0: "current_key ?st0 = Some key"
    and cell0: "cell_of ?st0 k = cell_of st k"
    using Cons.prems by (simp_all add: set_data_prep_def)
  obtain r st1 where sd: "MFScalar_set_data env ?st0 item = (r, st1)"
    by (cases "MFScalar_set_data env ?st0 item")
  from set_data_cells [OF own0 cur0, of env item k] sd cell0
  have st1: "own_cells st1" "k \<noteq> key \<longrightarrow> cell_of st1 k = cell_of st k"
    by simp_all
  show ?case
  proof (cases r)
    case (Inl e)
    with p sd st1 show ?thesis
      by simp
  next
    case (Inr u)
    with p sd st1 Cons.IH [OF st1(1)] show ?thesis
      by simp
  qed
qed

lemma add_transient_key_cells:
  assumes own: "own_cells st" and keyed: "data_storage st = Keyed d"
  shows "own_cells (snd (MFScalarTransient_add_transient_key st K))
         \<and> cell_of (snd (MFScalarTransient_add_transient_key st K)) K = Some new_DataStorage
         \<and> (k \<noteq> K \<longrightarrow>
              cell_of (snd (MFScalarTransient_add_transient_key st K)) k = cell_of st k)"
proof -
  let ?a = "length (heap st)"
  from own keyed have dk: "distinct (map fst d)" and da: "distinct (map snd d)"
    and valid: "\<forall>a \<in> set (map snd d). a < ?a"
    by (simp_all add: own_cells_def list_all_iff)
  from valid have fresh: "?a \<notin> set (map snd d)"
    by auto
  have valid': "\<forall>a \<in> set (map snd (od_set d K ?a)). a < Suc ?a"
    using addrs_od_set [of d K ?a] valid by fastforce
  have "own_cells (snd (MFScalarTransient_add_transient_key st K))"
    using keyed distinct_keys_od_set [OF dk] distinct_addrs_od_set [OF da fresh] valid'
    by (simp add: MFScalarTransient_add_transient_key_def own_cells_def list_all_iff)
  moreover have "cell_of (snd (MFScalarTransient_add_transient_key st K)) K = Some new_DataStorage"
    using keyed
    by (simp add: MFScalarTransient_add_transient_key_def cell_of_def od_get_od_set deref_def
        MFScalar_new_storage_def)
  moreover have "cell_of (snd (MFScalarTransient_add_transient_key st K)) k = cell_of st k"
    if "k \<noteq> K"
  proof (cases "od_get d k")
    case None
    with keyed that show ?thesis
      by (simp add: MFScalarTransient_add_transient_key_def cell_of_def od_get_od_set)
  next
    case (Some a)
    with valid od_get_addr [OF Some] have "a < ?a"
      by auto
    with keyed that Some show ?thesis
      by (simp add: MFScalarTransient_add_transient_key_def cell_of_def od_get_od_set deref_def
          nth_append)
  qed
  ultimately show ?thesis
    by simp
qed

text \<open>
  The example sequence is what the constructor, two registrations and a dictionary
  \<^verbatim>\<open>set_data\<close> build.
\<close>

lemma example_transient_built:
  "new_MFScalarTransient (example_env Py3) integer_struct = Inr st0 \<Longrightarrow>
   MFScalarTransient_add_transient_key st0 0 = (Inr (), st1) \<Longrightarrow>
   MFScalarTransient_add_transient_key st1 1 = (Inr (), st2) \<Longrightarrow>
   MFScalarTransient_set_data (example_env Py3) st2 (PDict [(0, PInt 3), (1, PList [PInt 7])]) None
     = (Inr (), example_transient)"
  by (auto simp: new_MFScalarTransient_def MFScalar_init_def data_item_def integer_struct_def
      MFData_init_def MFScalarTransient_new_storage_def MFScalarTransient_add_transient_key_def
      MFScalar_new_storage_def new_DataStorage_def MFScalarTransient_set_data_def
      set_data_prep_def MFScalar_set_data_def set_data_loop_result get_storage_obj_def
      od_get_def deref_def example_env_def example_convert_data_def put_storage_obj_def
      DataStorage_set_data_def example_transient_def layer_comment_def)

text \<open>
  Claim C6. Call a transient sequence well-formed when every key is registered once,
  no two keys are registered at the same storage object, and every registered address
  holds an object. The constructor gives a well-formed sequence, and
  \<^verbatim>\<open>add_transient_key\<close>, \<^verbatim>\<open>set_data\<close> and \<^verbatim>\<open>load\<close> keep it so. In a well-formed
  sequence, \<^verbatim>\<open>set_data\<close> of a value that is no dictionary at key \<open>K\<close>, and \<^verbatim>\<open>load\<close>
  at key \<open>K\<close>, leave the cell of every other key as it was, whether they return or
  raise; \<^verbatim>\<open>set_data\<close> of a dictionary leaves the cell of every key that is not among
  its keys; and \<^verbatim>\<open>add_transient_key\<close> of \<open>K\<close>, registered before or not, leaves \<open>K\<close>
  with a new empty cell and every other key with the cell it had.
\<close>

theorem transient_keys_own_their_cells:
  assumes own: "own_cells st" and keyed: "data_storage st = Keyed d"
  shows "(\<not> is_dict data \<and> k \<noteq> K \<longrightarrow>
            cell_of (snd (MFScalarTransient_set_data env st data (Some K))) k = cell_of st k)
       \<and> (k \<notin> set (map fst entries) \<longrightarrow>
            cell_of (snd (MFScalarTransient_set_data env st (PDict entries) key)) k = cell_of st k)
       \<and> (k \<noteq> K \<longrightarrow>
            cell_of (snd (MFScalarTransient_load env st K first_line file_handle)) k
              = cell_of st k)
       \<and> cell_of (snd (MFScalarTransient_add_transient_key st K)) K = Some new_DataStorage
       \<and> (k \<noteq> K \<longrightarrow>
            cell_of (snd (MFScalarTransient_add_transient_key st K)) k = cell_of st k)
       \<and> own_cells (snd (MFScalarTransient_set_data env st data key))
       \<and> own_cells (snd (MFScalarTransient_load env st K first_line file_handle))
       \<and> own_cells (snd (MFScalarTransient_add_transient_key st K))
       \<and> (new_MFScalarTransient env s = Inr st0 \<longrightarrow> own_cells st0)"
proof (intro conjI impI)
  let ?stK = "set_data_prep st (Some K)"
  have ownK: "own_cells ?stK" and curK: "current_key ?stK = Some K"
    and cellK: "cell_of ?stK k = cell_of st k"
    using own by (simp_all add: set_data_prep_def)
  assume "\<not> is_dict data \<and> k \<noteq> K"
  then have nd: "MFScalarTransient_set_data env st data (Some K) = MFScalar_set_data env ?stK data"
    and ne: "k \<noteq> K"
    by (cases data; simp add: MFScalarTransient_set_data_def)+
  from set_data_cells [OF ownK curK, of env data k] ne cellK
  show "cell_of (snd (MFScalarTransient_set_data env st data (Some K))) k = cell_of st k"
    by (simp add: nd)
next
  assume "k \<notin> set (map fst entries)"
  with set_data_items_cells [OF own, of env entries k]
  show "cell_of (snd (MFScalarTransient_set_data env st (PDict entries) key)) k = cell_of st k"
    by (simp add: MFScalarTransient_set_data_def)
next
  let ?stK = "load_prep st K"
  have ownK: "own_cells ?stK" and curK: "current_key ?stK = Some K"
    and cellK: "cell_of ?stK k = cell_of st k"
    using own by (simp_all add: load_prep_def)
  assume "k \<noteq> K"
  with load_cells [OF ownK curK, of env first_line file_handle k] cellK
  show "cell_of (snd (MFScalarTransient_load env st K first_line file_handle)) k = cell_of st k"
    by (simp add: MFScalarTransient_load_def)
next
  from add_transient_key_cells [OF own keyed]
  show "cell_of (snd (MFScalarTransient_add_transient_key st K)) K = Some new_DataStorage"
    by simp
next
  assume "k \<noteq> K"
  with add_transient_key_cells [OF own keyed, of K k]
  show "cell_of (snd (MFScalarTransient_add_transient_key st K)) k = cell_of st k"
    by simp
next
  show "own_cells (snd (MFScalarTransient_set_data env st data key))"
  proof (cases "is_dict data")
    case True
    then obtain es where "data = PDict es"
      by (cases data) simp_all
    with set_data_items_cells [OF own, of env es k] show ?thesis
      by (simp add: MFScalarTransient_set_data_def)
  next
    case False
    then have nd: "MFScalarTransient_set_data env st data key
        = MFScalar_set_data env (set_data_prep st key) data"
      by (cases data; simp add: MFScalarTransient_set_data_def)
    show ?thesis
    proof (cases "current_key (set_data_prep st key)")
      case None
      with own show ?thesis
        by (auto simp: nd MFScalar_set_data_def set_data_loop_result get_storage_obj_def keyed
            set_data_prep_def split: option.splits sum.splits)
    next
      case (Some c)
      from own have "own_cells (set_data_prep st key)"
        by (simp add: set_data_prep_def split: option.splits)
      from set_data_cells [OF this Some, of env data k] show ?thesis
        by (simp add: nd)
    qed
  qed
next
  have "own_cells (load_prep st K)" "current_key (load_prep st K) = Some K"
    using own by (simp_all add: load_prep_def)
  from load_cells [OF this, of env first_line file_handle k]
  show "own_cells (snd (MFScalarTransient_load env st K first_line file_handle))"
    by (simp add: MFScalarTransient_load_def)
next
  from add_transient_key_cells [OF own keyed]
  show "own_cells (snd (MFScalarTransient_add_transient_key st K))"
    by simp
next
  assume "new_MFScalarTransient env s = Inr st0"
  then show "own_cells st0"
    by (auto simp: new_MFScalarTransient_def MFScalar_init_def MFData_init_def own_cells_def
        MFScalarTransient_new_storage_def split: sum.splits)
qed

text \<open>
  In the example sequence, setting 9 at key 1 leaves the 3 of key 0; registering key 1
  again leaves it empty and key 0 with its 3.
\<close>

theorem transient_keys_own_their_cells_witness:
  "own_cells example_transient
   \<and> cell_of example_transient 0 = Some \<lparr>stored = PInt 3\<rparr>
   \<and> cell_of (snd (MFScalarTransient_set_data (example_env Py3) example_transient (PInt 9)
                     (Some 1))) 0 = Some \<lparr>stored = PInt 3\<rparr>
   \<and> cell_of (snd (MFScalarTransient_set_data (example_env Py3) example_transient (PInt 9)
                     (Some 1))) 1 = Some \<lparr>stored = PInt 9\<rparr>
   \<and> cell_of (snd (MFScalarTransient_add_transient_key example_transient 1)) 1
       = Some \<lparr>stored = PNone\<rparr>
   \<and> cell_of (snd (MFScalarTransient_add_transient_key example_transient 1)) 0
       = Some \<lparr>stored = PInt 3\<rparr>"
proof -
  have own: "own_cells example_transient"
    and keyed: "data_storage example_transient = Keyed [(0, 0), (1, 1)]"
    and c0: "cell_of example_transient 0 = Some \<lparr>stored = PInt 3\<rparr>"
    by (simp_all add: own_cells_def example_transient_def cell_of_def od_get_def deref_def)
  have c1: "cell_of (snd (MFScalarTransient_set_data (example_env Py3) example_transient (PInt 9)
                     (Some 1))) 1 = Some \<lparr>stored = PInt 9\<rparr>"
    by (simp add: MFScalarTransient_set_data_def set_data_prep_def MFScalar_set_data_def
        set_data_loop_result get_storage_obj_def example_transient_def od_get_def deref_def
        data_item_def integer_struct_def example_env_def example_convert_data_def
        put_storage_obj_def DataStorage_set_data_def cell_of_def)
  from transient_keys_own_their_cells [where data = "PInt 9" and k = 0 and K = 1
      and env = "example_env Py3", OF own keyed] own c0 c1
  show ?thesis
    by (simp add: new_DataStorage_def)
qed

text \<open>
  Well-formedness is what isolates the keys: where two keys are registered at one
  object, setting 9 at key 1 changes what key 0 holds.
\<close>

lemma shared_cell_is_not_isolated:
  "\<not> own_cells shared_transient
   \<and> cell_of shared_transient 0 = Some \<lparr>stored = PInt 3\<rparr>
   \<and> cell_of (snd (MFScalarTransient_set_data (example_env Py3) shared_transient (PInt 9)
                     (Some 1))) 0 = Some \<lparr>stored = PInt 9\<rparr>"
  by (simp add: MFScalarTransient_set_data_def set_data_prep_def MFScalar_set_data_def
        set_data_loop_result get_storage_obj_def example_transient_def od_get_def deref_def
        data_item_def integer_struct_def example_env_def example_convert_data_def
        put_storage_obj_def DataStorage_set_data_def cell_of_def shared_transient_def
        own_cells_def)

section \<open>The file entry of the transient sequence\<close>

text \<open>
  With no key, \<^verbatim>\<open>get_file_entry\<close> collects the entries and then compares the list with
  1. Under Python 3 the comparison raises, so the call never returns a text. Under
  Python 2 the comparison is true whatever the list holds, and the joined text is the
  empty string for no entry, the entry itself for one, and the entries with the separator
  between them for more.
\<close>

lemma get_file_entry_python3_raises:
  assumes "python env = Py3" "data_storage st = Keyed d"
  shows "\<exists>e. fst (MFScalarTransient_get_file_entry env st None) = Inl e"
  using assms
  by (cases "get_file_entry_loop env st (od_keys d) []")
    (auto simp: MFScalarTransient_get_file_entry_def py_list_gt_int_def split: sum.splits)

lemma get_file_entry_python3_type_error:
  assumes "python env = Py3" "data_storage st = Keyed d"
    and "get_file_entry_loop env st (od_keys d) [] = (Inr file_entry, st1)"
  shows "MFScalarTransient_get_file_entry env st None
           = (Inl (TypeError ''> not supported between instances of list and int''), st1)"
  using assms
  by (simp add: MFScalarTransient_get_file_entry_def py_list_gt_int_def)

lemma get_file_entry_python2_joins:
  assumes "python env = Py2" "data_storage st = Keyed d"
    and "get_file_entry_loop env st (od_keys d) [] = (Inr file_entry, st1)"
  shows "MFScalarTransient_get_file_entry env st None
           = (Inr (join (newline @ newline) file_entry), st1)"
  using assms
  by (simp add: MFScalarTransient_get_file_entry_def py_list_gt_int_def)

text \<open>
  Claim C1 asks for the entries of the keys that have data, joined by the blank-line
  separator. The code compares the list of entries, not its length, with 1 (line 289).
  On the example sequence, whose two keys both hold data, the call with no key under
  Python 3 raises \<^verbatim>\<open>TypeError\<close> instead of returning the two entries joined.
\<close>

theorem transient_get_file_entry_raises:
  "MFScalarTransient_get_file_entry (example_env Py3) example_transient None
     = (Inl (TypeError ''> not supported between instances of list and int''),
        example_transient)"
proof -
  have n: "str_int 3 = ''3''" "str_int 7 = ''7''"
    by code_simp+
  have u: "upper ''maxiter'' = ''MAXITER''"
    by code_simp
  have l: "get_file_entry_loop (example_env Py3) example_transient (od_keys [(0, 0), (1, 1)]) []
          = (Inr [''  MAXITER  3'' @ newline, ''  MAXITER  7'' @ newline], example_transient)"
    using n u
    by (simp add: od_keys_def MFScalarTransient_has_data_def get_data_prep_def
        MFScalar_has_data_def get_storage_obj_def example_transient_def od_get_def deref_def
        DataStorage_has_data_def get_file_entry_prep_def MFScalar_get_file_entry_def
        DataStorage_get_data_def integer_struct_def data_item_def example_env_def
        example_to_string_def)
  have p: "python (example_env Py3) = Py3"
    by (simp add: example_env_def)
  have k: "data_storage example_transient = Keyed [(0, 0), (1, 1)]"
    by (simp add: example_transient_def)
  from get_file_entry_python3_type_error [OF p k l] show ?thesis
    by simp
qed

text \<open>Under Python 2 the same call returns the two entries with the separator between.\<close>

lemma transient_get_file_entry_python2:
  "MFScalarTransient_get_file_entry (example_env Py2) example_transient None
     = (Inr (''  MAXITER  3'' @ newline @ newline @ newline @ ''  MAXITER  7'' @ newline),
        example_transient)"
proof -
  have n: "str_int 3 = ''3''" "str_int 7 = ''7''"
    by code_simp+
  have u: "upper ''maxiter'' = ''MAXITER''"
    by code_simp
  have l: "get_file_entry_loop (example_env Py2) example_transient (od_keys [(0, 0), (1, 1)]) []
          = (Inr [''  MAXITER  3'' @ newline, ''  MAXITER  7'' @ newline], example_transient)"
    using n u
    by (simp add: od_keys_def MFScalarTransient_has_data_def get_data_prep_def
        MFScalar_has_data_def get_storage_obj_def example_transient_def od_get_def deref_def
        DataStorage_has_data_def get_file_entry_prep_def MFScalar_get_file_entry_def
        DataStorage_get_data_def integer_struct_def data_item_def example_env_def
        example_to_string_def)
  have p: "python (example_env Py2) = Py2"
    by (simp add: example_env_def)
  have k: "data_storage example_transient = Keyed [(0, 0), (1, 1)]"
    by (simp add: example_transient_def)
  from get_file_entry_python2_joins [OF p k l] show ?thesis
    by simp
qed

section \<open>The ifill check of ModflowPcgn\<close>

text \<open>
  Claim C9. When \<^verbatim>\<open>ifill\<close> is below 0 or above 1, the constructor raises the
  \<^verbatim>\<open>TypeError\<close> whose message holds the value in decimal, and the parent model is as
  it was: \<^verbatim>\<open>add_package\<close> has not run, whatever it would do. When \<^verbatim>\<open>ifill\<close> is 0
  or 1, the check raises nothing: the outcome is that of \<^verbatim>\<open>add_package\<close> on the
  parent and the finished package.
\<close>

theorem pcgn_ifill_check:
  "(ifill' < 0 \<or> 1 < ifill' \<longrightarrow>
      ModflowPcgn_init add_package model iter_mo' iter_mi' ifill' unit_pc' unit_ts' adamp'
          acnvg' mcnvg' ipunit' ext unit_number'
        = (Inl (TypeError (''PCGN: ifill must be 0 or 1 - an ifill value of ''
                           @ str_int ifill' @ '' was specified'')), model))
   \<and> (ifill' = 0 \<or> ifill' = 1 \<longrightarrow>
      (\<exists>self. ifill self = ifill'
         \<and> ModflowPcgn_init add_package model iter_mo' iter_mi' ifill' unit_pc' unit_ts' adamp'
              acnvg' mcnvg' ipunit' ext unit_number'
            = (case add_package model self of
                 Inl e \<Rightarrow> (Inl e, model)
               | Inr model' \<Rightarrow> (Inr self, model'))))"
proof (intro conjI impI)
  assume "ifill' < 0 \<or> 1 < ifill'"
  then show "ModflowPcgn_init add_package model iter_mo' iter_mi' ifill' unit_pc' unit_ts' adamp'
          acnvg' mcnvg' ipunit' ext unit_number'
        = (Inl (TypeError (''PCGN: ifill must be 0 or 1 - an ifill value of ''
                           @ str_int ifill' @ '' was specified'')), model)"
    by (auto simp: ModflowPcgn_init_def Let_def split: prod.splits)
next
  assume ok: "ifill' = 0 \<or> ifill' = 1"
  obtain ext1 nam units extr where files:
    "pcgn_files (zip [unit_pc', unit_ts', ipunit'] [''pcgni'', ''pcgnt'', ''pcgno''])
       (ext, [''PCGN''], [unit_number'], [[]]) = (ext1, nam, units, extr)"
    by (cases "pcgn_files (zip [unit_pc', unit_ts', ipunit'] [''pcgni'', ''pcgnt'', ''pcgno''])
       (ext, [''PCGN''], [unit_number'], [[]])") auto
  let ?self = "\<lparr>extension = ext1, name = nam, unit_number = units, extra = extr,
                  heading = ''# PCGN for MODFLOW, generated by Flopy.'', url = ''pcgn.htm'',
                  iter_mo = iter_mo', iter_mi = iter_mi', ifill = ifill',
                  unit_pc = unit_pc', unit_ts = unit_ts', adamp = adamp', acnvg = acnvg',
                  mcnvg = mcnvg', ipunit = ipunit'\<rparr>"
  from ok files have "ifill ?self = ifill'
         \<and> ModflowPcgn_init add_package model iter_mo' iter_mi' ifill' unit_pc' unit_ts' adamp'
              acnvg' mcnvg' ipunit' ext unit_number'
            = (case add_package model ?self of
                 Inl e \<Rightarrow> (Inl e, model)
               | Inr model' \<Rightarrow> (Inr ?self, model'))"
    by (auto simp: ModflowPcgn_init_def Let_def)
  then show "\<exists>self. ifill self = ifill'
         \<and> ModflowPcgn_init add_package model iter_mo' iter_mi' ifill' unit_pc' unit_ts' adamp'
              acnvg' mcnvg' ipunit' ext unit_number'
            = (case add_package model self of
                 Inl e \<Rightarrow> (Inl e, model)
               | Inr model' \<Rightarrow> (Inr self, model'))"
    by (rule exI)
qed

text \<open>
  With a parent that keeps its packages in a list: \<^verbatim>\<open>ifill=2\<close> and \<^verbatim>\<open>ifill=-1\<close>
  raise and leave the list empty, \<^verbatim>\<open>ifill=1\<close> adds the package.
\<close>

theorem pcgn_ifill_check_witness:
  "ModflowPcgn_init (\<lambda>m p. Inr (m @ [p])) [] 50 30 2 0 0 0 0 2 0 [''pcgn''] 27
     = (Inl (TypeError ''PCGN: ifill must be 0 or 1 - an ifill value of 2 was specified''), [])
   \<and> ModflowPcgn_init (\<lambda>m p. Inr (m @ [p])) [] 50 30 (- 1) 0 0 0 0 2 0 [''pcgn''] 27
     = (Inl (TypeError ''PCGN: ifill must be 0 or 1 - an ifill value of -1 was specified''), [])
   \<and> (\<exists>self. ifill self = 1
         \<and> ModflowPcgn_init (\<lambda>m p. Inr (m @ [p])) [] 50 30 1 0 0 0 0 2 0 [''pcgn''] 27
             = (Inr self, [self]))"
proof -
  have n: "str_int 2 = ''2''" "str_int (- 1) = ''-1''"
    by code_simp+
  from pcgn_ifill_check [where ifill' = 2 and add_package = "\<lambda>m p. Inr (m @ [p])"
      and model = "[]" and iter_mo' = 50 and iter_mi' = 30 and unit_pc' = 0 and unit_ts' = 0
      and adamp' = 0 and acnvg' = 0 and mcnvg' = 2 and ipunit' = 0 and ext = "[''pcgn'']"
      and unit_number' = 27]
    pcgn_ifill_check [where ifill' = "- 1" and add_package = "\<lambda>m p. Inr (m @ [p])"
      and model = "[]" and iter_mo' = 50 and iter_mi' = 30 and unit_pc' = 0 and unit_ts' = 0
      and adamp' = 0 and acnvg' = 0 and mcnvg' = 2 and ipunit' = 0 and ext = "[''pcgn'']"
      and unit_number' = 27]
    pcgn_ifill_check [where ifill' = 1 and add_package = "\<lambda>m p. Inr (m @ [p])"
      and model = "[]" and iter_mo' = 50 and iter_mi' = 30 and unit_pc' = 0 and unit_ts' = 0
      and adamp' = 0 and acnvg' = 0 and mcnvg' = 2 and ipunit' = 0 and ext = "[''pcgn'']"
      and unit_number' = 27]
    n
  show ?thesis
    by simp
qed

end
